theory Spec2Isabelle
  imports Complex_Main
begin

section \<open>Data model (services/api.ts)\<close>

text \<open>
  JavaScript numbers that hold counts and money (\<open>quantity\<close>, \<open>stockQuantity\<close>,
  \<open>price\<close>, HTTP status codes) are modelled as \<open>int\<close>: the code only adds,
  multiplies and compares them, which is exact on integer-valued doubles below \<open>2^53\<close>.
  Coordinates come out of \<open>parseFloat\<close> and may be \<open>NaN\<close> or infinite, so they
  have a type of their own.
\<close>

datatype number = NaN | Num real | PosInfinity | NegInfinity

text \<open>\<open>a < b\<close> and \<open>a > b\<close> on JavaScript numbers: every comparison with \<open>NaN\<close> is false.\<close>

fun js_lt :: "number \<Rightarrow> number \<Rightarrow> bool" where
  "js_lt NaN _ = False"
| "js_lt _ NaN = False"
| "js_lt (Num a) (Num b) = (a < b)"
| "js_lt (Num _) PosInfinity = True"
| "js_lt (Num _) NegInfinity = False"
| "js_lt PosInfinity _ = False"
| "js_lt NegInfinity NegInfinity = False"
| "js_lt NegInfinity _ = True"

definition js_gt :: "number \<Rightarrow> number \<Rightarrow> bool" where
  "js_gt a b = js_lt b a"

definition isNaN :: "number \<Rightarrow> bool" where
  "isNaN x = (x = NaN)"

datatype role = Customer | Driver | Admin

text \<open>\<open>interface User\<close>; the field \<open>id\<close> is named \<open>uid\<close> (\<open>id\<close> is HOL's identity).\<close>

record User =
  uid :: string
  email :: string
  firstName :: string
  lastName :: string
  phone :: string
  userRole :: role
  address :: "string option"
  latitude :: "number option"
  longitude :: "number option"
  isActive :: bool
  createdAt :: string

text \<open>
  \<open>interface GasCylinder\<close>; the field \<open>id\<close> is named \<open>cid\<close>. The optional
  \<open>imageUrl\<close>, \<open>supplier\<close>, \<open>createdAt\<close> and \<open>updatedAt\<close> are carried along
  untouched by every function below and are left out.
\<close>

record GasCylinder =
  cid :: string
  name :: string
  weight :: int
  price :: int
  description :: "string option"
  brand :: "string option"
  stockQuantity :: int
  isAvailable :: bool

section \<open>Order Composer (app/place-order.tsx)\<close>

text \<open>\<open>interface CartItem extends GasCylinder { quantity: number }\<close>\<close>

record CartItem = GasCylinder +
  quantity :: int

text \<open>The object literal \<open>{ ...cylinder, quantity: q }\<close>.\<close>

definition cartItem :: "GasCylinder \<Rightarrow> int \<Rightarrow> CartItem" where
  "cartItem c q =
     \<lparr>cid = cid c, name = name c, weight = weight c, price = price c,
      description = description c, brand = brand c,
      stockQuantity = stockQuantity c, isAvailable = isAvailable c, quantity = q\<rparr>"

definition DELIVERY_FEE :: int where
  "DELIVERY_FEE = 5000"

text \<open>
  \<open>loadCylinders\<close> keeps \<open>data.filter(c => c.isAvailable && c.stockQuantity > 0)\<close>:
  these are the cylinders the screen offers to \<open>addToCart\<close>.
\<close>

definition offered :: "GasCylinder list \<Rightarrow> GasCylinder list" where
  "offered data = filter (\<lambda>c. isAvailable c \<and> stockQuantity c > 0) data"

text \<open>
  \<open>addToCart\<close> and \<open>updateQuantity\<close> are the updater functions handed to
  \<open>setCart\<close>: from the previous cart to the next one. The \<open>Alert.alert\<close> notice on
  the rejecting branches changes no state and is not modelled.
\<close>

definition addToCart :: "GasCylinder \<Rightarrow> CartItem list \<Rightarrow> CartItem list" where
  "addToCart cylinder prev =
     (case find (\<lambda>item. cid item = cid cylinder) prev of
        Some existing \<Rightarrow>
          if quantity existing \<ge> stockQuantity cylinder then prev
          else map (\<lambda>item. if cid item = cid cylinder
                            then item\<lparr>quantity := quantity item + 1\<rparr>
                            else item) prev
      | None \<Rightarrow> prev @ [cartItem cylinder 1])"

text \<open>
  The \<open>map\<close> to \<open>CartItem | null\<close> followed by \<open>filter(Boolean)\<close> is
  \<open>List.map_filter\<close>, with \<open>None\<close> for \<open>null\<close>.
\<close>

definition updateQuantity :: "string \<Rightarrow> int \<Rightarrow> CartItem list \<Rightarrow> CartItem list" where
  "updateQuantity i change prev =
     List.map_filter
       (\<lambda>item.
          if cid item = i then
            (let newQuantity = quantity item + change in
             if newQuantity \<le> 0 then None
             else if newQuantity > stockQuantity item then Some item
             else Some (item\<lparr>quantity := newQuantity\<rparr>))
          else Some item)
       prev"

text \<open>\<open>cart.reduce((sum, item) => sum + (item.price * item.quantity), 0)\<close>\<close>

definition subtotal :: "CartItem list \<Rightarrow> int" where
  "subtotal cart = foldl (\<lambda>sum item. sum + price item * quantity item) 0 cart"

definition total :: "CartItem list \<Rightarrow> int" where
  "total cart = subtotal cart + DELIVERY_FEE"

text \<open>A sequence of calls made by the screen, applied to a cart from left to right.\<close>

datatype cart_call = AddToCart GasCylinder | UpdateQuantity string int

fun cart_step :: "CartItem list \<Rightarrow> cart_call \<Rightarrow> CartItem list" where
  "cart_step cart (AddToCart c) = addToCart c cart"
| "cart_step cart (UpdateQuantity i change) = updateQuantity i change cart"

definition run_cart :: "cart_call list \<Rightarrow> CartItem list \<Rightarrow> CartItem list" where
  "run_cart calls cart = foldl cart_step cart calls"

text \<open>The cylinders a sequence of calls passes to \<open>addToCart\<close>.\<close>

fun added :: "cart_call list \<Rightarrow> GasCylinder list" where
  "added [] = []"
| "added (AddToCart c # calls) = c # added calls"
| "added (UpdateQuantity _ _ # calls) = added calls"

text \<open>Every cylinder passed has stock.\<close>

definition in_stock :: "GasCylinder list \<Rightarrow> bool" where
  "in_stock cs = list_all (\<lambda>c. 1 \<le> stockQuantity c) cs"

text \<open>
  The stock does not rise under an item that is at its limit: along the calls, from the
  cart \<open>prev\<close> on, a cylinder passed to \<open>addToCart\<close> while the item of its id in the
  cart has reached that item's own \<open>stockQuantity\<close> carries at most the
  \<open>stockQuantity\<close> the item carries.
\<close>

fun no_rise_at_limit :: "cart_call list \<Rightarrow> CartItem list \<Rightarrow> bool" where
  "no_rise_at_limit [] prev = True"
| "no_rise_at_limit (AddToCart c # calls) prev =
     ((case find (\<lambda>item. cid item = cid c) prev of
         Some existing \<Rightarrow>
           quantity existing < stockQuantity existing \<or>
           stockQuantity c \<le> stockQuantity existing
       | None \<Rightarrow> True) \<and>
      no_rise_at_limit calls (addToCart c prev))"
| "no_rise_at_limit (UpdateQuantity i change # calls) prev = no_rise_at_limit calls (updateQuantity i change prev)"

definition within_stock :: "CartItem list \<Rightarrow> bool" where
  "within_stock cart = list_all (\<lambda>item. 1 \<le> quantity item \<and> quantity item \<le> stockQuantity item) cart"

subsection \<open>Submission validation\<close>

text \<open>The state of \<open>PlaceOrderScreen\<close> that validation and submission read.\<close>

record order_form =
  cart :: "CartItem list"
  deliveryAddress :: string
  deliveryLat :: string
  deliveryLng :: string
  instructions :: string
  loading :: bool

text \<open>
  \<open>canPlaceOrder\<close> returns the value of an \<open>&&\<close> chain and is only ever read through
  \<open>!canPlaceOrder()\<close>: the model is its truthiness. A string is truthy when it is not empty.
  \<open>trim\<close> is \<open>String.prototype.trim\<close>, the JavaScript built-in, taken as a parameter.
\<close>

definition canPlaceOrder :: "(string \<Rightarrow> string) \<Rightarrow> order_form \<Rightarrow> bool" where
  "canPlaceOrder trim s \<longleftrightarrow>
     length (cart s) > 0 \<and>
     trim (deliveryAddress s) \<noteq> [] \<and>
     deliveryLat s \<noteq> [] \<and>
     deliveryLng s \<noteq> [] \<and>
     \<not> loading s"

text \<open>
  \<open>interface OrderItemPayload\<close> and \<open>interface CreateOrderPayload\<close>. The item's
  \<open>quantity\<close> is named \<open>orderQuantity\<close> and the payload's \<open>deliveryAddress\<close> is
  named \<open>orderAddress\<close> (both names are taken by the records above). \<open>items\<close> is
  \<open>None\<close> when the property is missing, which \<open>createOrder\<close> tests for.
\<close>

record OrderItemPayload =
  cylinderId :: string
  orderQuantity :: int

record CreateOrderPayload =
  customerId :: string
  items :: "OrderItemPayload list option"
  orderAddress :: string
  deliveryLatitude :: number
  deliveryLongitude :: number
  specialInstructions :: "string option"

text \<open>
  What a call of \<open>placeOrder\<close> decides: an \<open>Alert.alert(title, text)\<close> and return, or
  the call \<open>apiService.createOrder(orderData, token)\<close>. What follows the call (the
  loading flag, the success and failure alerts, the reload of the cylinders) is not
  modelled. \<open>parseFloat\<close> and \<open>trim\<close> are the JavaScript built-ins, taken as
  parameters.
\<close>

datatype place_order = Alerted string string | CreateOrder CreateOrderPayload string

definition placeOrder ::
  "(string \<Rightarrow> number) \<Rightarrow> (string \<Rightarrow> string) \<Rightarrow> User option \<Rightarrow> string option \<Rightarrow> order_form
     \<Rightarrow> place_order" where
  "placeOrder parseFloat trim usr tok s =
     (case (usr, tok) of
        (Some u, Some t) \<Rightarrow>
          if t = [] then Alerted ''Error'' ''Please log in first''
          else if \<not> canPlaceOrder trim s then
            Alerted ''Incomplete Order'' ''Please fill all required fields and add items''
          else
            (let lat = parseFloat (deliveryLat s);
                 lng = parseFloat (deliveryLng s)
             in if isNaN lat \<or> isNaN lng \<or> js_lt lat (Num (- 90)) \<or> js_gt lat (Num 90) \<or>
                   js_lt lng (Num (- 180)) \<or> js_gt lng (Num 180)
                then Alerted ''Invalid Coordinates'' ''Please enter valid latitude and longitude''
                else CreateOrder
                  \<lparr>customerId = uid u,
                   items = Some (map (\<lambda>item. \<lparr>cylinderId = cid item, orderQuantity = quantity item\<rparr>)
                                   (cart s)),
                   orderAddress = trim (deliveryAddress s),
                   deliveryLatitude = lat,
                   deliveryLongitude = lng,
                   specialInstructions =
                     (if trim (instructions s) \<noteq> [] then Some (trim (instructions s)) else None)\<rparr>
                  t)
      | _ \<Rightarrow> Alerted ''Error'' ''Please log in first'')"

section \<open>API Client (services/api.ts)\<close>

text \<open>
  A thrown \<open>Error\<close> is its message. JSON values as \<open>response.json()\<close> yields them;
  numbers are integers here. An object is the list of its properties, each key once.
\<close>

datatype js_error = Error (message: string)

datatype json = JNull | JBool bool | JNum int | JStr string | JArr "json list"
  | JObj "(string \<times> json) list"

text \<open>Decimal digits of a number, for the template literal \<open>${response.status}\<close>.\<close>

fun digits :: "nat \<Rightarrow> string" where
  "digits n = (if n < 10 then [''0123456789'' ! n]
               else digits (n div 10) @ [''0123456789'' ! (n mod 10)])"

declare digits.simps [simp del]

definition show_int :: "int \<Rightarrow> string" where
  "show_int i = (if i < 0 then CHR ''-'' # digits (nat (- i)) else digits (nat i))"

text \<open>\<open>Array.prototype.join\<close> with a comma.\<close>

fun join_comma :: "string list \<Rightarrow> string" where
  "join_comma [] = []"
| "join_comma [s] = s"
| "join_comma (s # t # ss) = s @ CHR '','' # join_comma (t # ss)"

text \<open>
  \<open>String(v)\<close>, which \<open>new Error(v)\<close> applies to its argument: a string is itself, an
  array joins its elements (\<open>null\<close> as the empty string), an object is
  \<open>[object Object]\<close>.
\<close>

fun js_string :: "json \<Rightarrow> string" where
  "js_string JNull = ''null''"
| "js_string (JBool b) = (if b then ''true'' else ''false'')"
| "js_string (JNum n) = show_int n"
| "js_string (JStr s) = s"
| "js_string (JArr vs) = join_comma (map (\<lambda>v. if v = JNull then [] else js_string v) vs)"
| "js_string (JObj kvs) = ''[object Object]''"

text \<open>
  Truthiness of a property that may be missing (\<open>None\<close> is \<open>undefined\<close>), as \<open>||\<close>
  reads it.
\<close>

fun truthy :: "json option \<Rightarrow> bool" where
  "truthy None = False"
| "truthy (Some JNull) = False"
| "truthy (Some (JBool b)) = b"
| "truthy (Some (JNum n)) = (n \<noteq> 0)"
| "truthy (Some (JStr s)) = (s \<noteq> [])"
| "truthy (Some (JArr vs)) = True"
| "truthy (Some (JObj kvs)) = True"

text \<open>
  The property reads \<open>data.error\<close> and \<open>data.message\<close>: on \<open>null\<close> a TypeError
  is thrown (its text varies with the engine), an object gives the property or
  \<open>undefined\<close>, and no other JSON value has a property of either name.
\<close>

fun property :: "json \<Rightarrow> string \<Rightarrow> js_error + json option" where
  "property JNull k = Inl (Error (''Cannot read properties of null (reading '' @ k @ '')''))"
| "property (JObj kvs) k = Inr (map_of kvs k)"
| "property v k = Inr None"

text \<open>
  \<open>RequestInit\<close> as the client uses it; \<open>http_method\<close> is its \<open>method\<close>. A
  \<open>Response\<close> is its status and what \<open>response.json()\<close> settles to: the parsed
  value, or the error it rejects with when the body is not JSON.
\<close>

record RequestInit =
  http_method :: string
  headers :: "string \<rightharpoonup> string"
  body :: "string option"

record Response =
  status :: int
  json_body :: "js_error + json"

definition ok :: "Response \<Rightarrow> bool" where
  "ok response \<longleftrightarrow> 200 \<le> status response \<and> status response \<le> 299"

text \<open>
  The network: \<open>fetch\<close> answers a request with a response or rejects, and every call
  of it is recorded, in order.
\<close>

type_synonym fetch = "string \<Rightarrow> RequestInit \<Rightarrow> js_error + Response"
type_synonym sent = "(string \<times> RequestInit) list"

definition API_BASE_URL :: string where
  "API_BASE_URL = ''https://gas.bxmedia.pro/api''"

text \<open>
  \<open>request<T>\<close>. The \<open>catch\<close> of its \<open>try\<close> logs and rethrows, so every error
  leaves as it was raised.
\<close>

definition request ::
  "fetch \<Rightarrow> string \<Rightarrow> string \<Rightarrow> RequestInit \<Rightarrow> sent \<Rightarrow> (js_error + json) \<times> sent" where
  "request fetch baseURL endpoint options net =
     (let url = baseURL @ endpoint;
          defaultHeaders =
            (case body options of
               Some b \<Rightarrow> if b \<noteq> [] then [''Content-Type'' \<mapsto> ''application/json''] else Map.empty
             | None \<Rightarrow> Map.empty);
          config = options\<lparr>headers := defaultHeaders ++ headers options\<rparr>;
          net' = net @ [(url, config)]
      in case fetch url config of
           Inl e \<Rightarrow> (Inl e, net')
         | Inr response \<Rightarrow>
             if status response = 204 then (Inr (JObj []), net')
             else
               (case json_body response of
                  Inl e \<Rightarrow> (Inl e, net')
                | Inr data \<Rightarrow>
                    if \<not> ok response then
                      (case property data ''error'' of
                         Inl e \<Rightarrow> (Inl e, net')
                       | Inr err \<Rightarrow>
                           (case (truthy err, err) of
                              (True, Some v) \<Rightarrow> (Inl (Error (js_string v)), net')
                            | _ \<Rightarrow>
                                (case property data ''message'' of
                                   Inl e \<Rightarrow> (Inl e, net')
                                 | Inr msg \<Rightarrow>
                                     (case (truthy msg, msg) of
                                        (True, Some v) \<Rightarrow> (Inl (Error (js_string v)), net')
                                      | _ \<Rightarrow>
                                          (Inl (Error (''HTTP error! status: '' @
                                                       show_int (status response))), net')))))
                    else (Inr data, net')))"

text \<open>
  The typed methods of \<open>ApiService\<close>. Each is one call of \<open>request\<close> with its own
  endpoint and options; \<open>createOrder\<close> checks its payload first. A call of a method
  is the method with its arguments in the source's order, a data argument given as the
  text \<open>JSON.stringify\<close> makes of it, and optional query parameters as the string
  \<open>buildQueryString\<close> makes of them (empty when there are none).
\<close>

datatype api_method =
    M_login string
  | M_register string
  | M_verifyToken string
  | M_logout string
  | M_refreshToken string
  | M_getAllUsers string
  | M_getUserById string string
  | M_createUser string
  | M_updateUser string string string
  | M_updatePassword string string string
  | M_deleteUser string string
  | M_getUsersByRole role string
  | M_getAllGasCylinders "string option"
  | M_getGasCylinderById string "string option"
  | M_createGasCylinder string string
  | M_updateGasCylinder string string string
  | M_deleteGasCylinder string string
  | M_createOrder CreateOrderPayload string
  | M_getAllOrders string string
  | M_getOrderById string string
  | M_getOrderByNumber string string
  | M_updateOrder string string string
  | M_updateOrderStatus string string string
  | M_updatePaymentStatus string string string
  | M_assignOrderToDriver string string string
  | M_cancelOrder string string
  | M_deleteOrder string string
  | M_getCustomerOrders string string string
  | M_getDriverOrders string string string
  | M_getAvailableOrders string string
  | M_getOrderStatistics string string
  | M_healthCheck

fun role_name :: "role \<Rightarrow> string" where
  "role_name Customer = ''customer''"
| "role_name Driver = ''driver''"
| "role_name Admin = ''admin''"

definition bearer :: "string \<Rightarrow> string \<rightharpoonup> string" where
  "bearer t = [''Authorization'' \<mapsto> ''Bearer '' @ t]"

text \<open>The headers of the two cylinder reads, whose token is optional.\<close>

definition optional_bearer :: "string option \<Rightarrow> string \<rightharpoonup> string" where
  "optional_bearer tok =
     (case tok of Some t \<Rightarrow> if t \<noteq> [] then bearer t else Map.empty | None \<Rightarrow> Map.empty)"

definition init :: "string \<Rightarrow> (string \<rightharpoonup> string) \<Rightarrow> string option \<Rightarrow> RequestInit" where
  "init m hs b = \<lparr>http_method = m, headers = hs, body = b\<rparr>"

text \<open>
  The endpoint and the options each method passes to \<open>request\<close>; \<open>stringify\<close> is
  \<open>JSON.stringify\<close> on an order payload.
\<close>

fun request_of :: "(CreateOrderPayload \<Rightarrow> string) \<Rightarrow> api_method \<Rightarrow> string \<times> RequestInit" where
  "request_of stringify (M_login credentials) =
     (''/auth/login'', init ''POST'' Map.empty (Some credentials))"
| "request_of stringify (M_register userData) =
     (''/auth/register'', init ''POST'' Map.empty (Some userData))"
| "request_of stringify (M_verifyToken t) =
     (''/auth/verify'', init ''GET'' (bearer t) None)"
| "request_of stringify (M_logout t) =
     (''/auth/logout'', init ''POST'' (bearer t) None)"
| "request_of stringify (M_refreshToken t) =
     (''/auth/refresh'', init ''POST'' (bearer t) None)"
| "request_of stringify (M_getAllUsers t) =
     (''/users'', init ''GET'' (bearer t) None)"
| "request_of stringify (M_getUserById i t) =
     (''/users/'' @ i, init ''GET'' (bearer t) None)"
| "request_of stringify (M_createUser userData) =
     (''/users'', init ''POST'' Map.empty (Some userData))"
| "request_of stringify (M_updateUser i userData t) =
     (''/users/'' @ i, init ''PUT'' (bearer t) (Some userData))"
| "request_of stringify (M_updatePassword i passwordData t) =
     (''/users/'' @ i @ ''/password'', init ''PATCH'' (bearer t) (Some passwordData))"
| "request_of stringify (M_deleteUser i t) =
     (''/users/'' @ i, init ''DELETE'' (bearer t) None)"
| "request_of stringify (M_getUsersByRole r t) =
     (''/users/role/'' @ role_name r, init ''GET'' (bearer t) None)"
| "request_of stringify (M_getAllGasCylinders tok) =
     (''/gas-cylinders'', init ''GET'' (optional_bearer tok) None)"
| "request_of stringify (M_getGasCylinderById i tok) =
     (''/gas-cylinders/'' @ i, init ''GET'' (optional_bearer tok) None)"
| "request_of stringify (M_createGasCylinder cylinderData t) =
     (''/gas-cylinders'', init ''POST'' (bearer t) (Some cylinderData))"
| "request_of stringify (M_updateGasCylinder i cylinderData t) =
     (''/gas-cylinders/'' @ i, init ''PUT'' (bearer t) (Some cylinderData))"
| "request_of stringify (M_deleteGasCylinder i t) =
     (''/gas-cylinders/'' @ i, init ''DELETE'' (bearer t) None)"
| "request_of stringify (M_createOrder orderData t) =
     (''/orders'',
      init ''POST''
        [''Authorization'' \<mapsto> ''Bearer '' @ t, ''Content-Type'' \<mapsto> ''application/json'']
        (Some (stringify orderData)))"
| "request_of stringify (M_getAllOrders t queryString) =
     (''/orders'' @ queryString, init ''GET'' (bearer t) None)"
| "request_of stringify (M_getOrderById i t) =
     (''/orders/'' @ i, init ''GET'' (bearer t) None)"
| "request_of stringify (M_getOrderByNumber orderNumber t) =
     (''/orders/number/'' @ orderNumber, init ''GET'' (bearer t) None)"
| "request_of stringify (M_updateOrder i orderData t) =
     (''/orders/'' @ i, init ''PUT'' (bearer t) (Some orderData))"
| "request_of stringify (M_updateOrderStatus i st t) =
     (''/orders/'' @ i @ ''/status'', init ''PATCH'' (bearer t) (Some st))"
| "request_of stringify (M_updatePaymentStatus i paymentStatus t) =
     (''/orders/'' @ i @ ''/payment-status'', init ''PATCH'' (bearer t) (Some paymentStatus))"
| "request_of stringify (M_assignOrderToDriver orderId driverId t) =
     (''/orders/'' @ orderId @ ''/assign'', init ''PATCH'' (bearer t) (Some driverId))"
| "request_of stringify (M_cancelOrder i t) =
     (''/orders/'' @ i @ ''/cancel'', init ''PATCH'' (bearer t) None)"
| "request_of stringify (M_deleteOrder i t) =
     (''/orders/'' @ i, init ''DELETE'' (bearer t) None)"
| "request_of stringify (M_getCustomerOrders customer t queryString) =
     (''/orders/customer/'' @ customer @ queryString, init ''GET'' (bearer t) None)"
| "request_of stringify (M_getDriverOrders driver t queryString) =
     (''/orders/driver/'' @ driver @ queryString, init ''GET'' (bearer t) None)"
| "request_of stringify (M_getAvailableOrders t queryString) =
     (''/orders/available'' @ queryString, init ''GET'' (bearer t) None)"
| "request_of stringify (M_getOrderStatistics t queryString) =
     (''/orders/statistics'' @ queryString, init ''GET'' (bearer t) None)"
| "request_of stringify M_healthCheck =
     (''/health'', init ''GET'' Map.empty None)"

text \<open>\<open>createOrder\<close>: the three checks, then the request.\<close>

definition createOrder ::
  "fetch \<Rightarrow> (CreateOrderPayload \<Rightarrow> string) \<Rightarrow> string \<Rightarrow> CreateOrderPayload \<Rightarrow> string \<Rightarrow> sent
     \<Rightarrow> (js_error + json) \<times> sent" where
  "createOrder fetch stringify baseURL orderData t net =
     (if customerId orderData = [] then (Inl (Error ''Customer ID is required''), net)
      else if items orderData = None \<or> items orderData = Some [] then
        (Inl (Error ''Order items are required''), net)
      else if orderAddress orderData = [] then
        (Inl (Error ''Delivery address is required''), net)
      else
        request fetch baseURL ''/orders''
          \<lparr>http_method = ''POST'',
           headers = [''Authorization'' \<mapsto> ''Bearer '' @ t,
                      ''Content-Type'' \<mapsto> ''application/json''],
           body = Some (stringify orderData)\<rparr>
          net)"

text \<open>A method called on the client.\<close>

fun invoke ::
  "fetch \<Rightarrow> (CreateOrderPayload \<Rightarrow> string) \<Rightarrow> string \<Rightarrow> api_method \<Rightarrow> sent
     \<Rightarrow> (js_error + json) \<times> sent" where
  "invoke fetch stringify baseURL (M_createOrder orderData t) net =
     createOrder fetch stringify baseURL orderData t net"
| "invoke fetch stringify baseURL m net =
     request fetch baseURL (fst (request_of stringify m)) (snd (request_of stringify m)) net"

section \<open>Session Manager (contexts/AuthContext.tsx)\<close>

text \<open>
  \<open>interface AuthResponse\<close>, \<open>LoginCredentials\<close> and \<open>RegisterData\<close>. An answer is
  the parsed body as \<open>request\<close> returns it, unvalidated: its \<open>token\<close> and its
  \<open>user\<close> are \<open>None\<close> when the body has \<open>null\<close> or nothing there.
\<close>

record AuthResponse =
  resp_message :: string
  resp_token :: "string option"
  resp_user :: "User option"

record LoginCredentials =
  login_email :: string
  login_password :: string

record RegisterData =
  reg_email :: string
  reg_password :: string
  reg_firstName :: string
  reg_lastName :: string
  reg_phone :: string
  reg_role :: "role option"
  reg_address :: "string option"

text \<open>
  \<open>CrossPlatformStorage\<close> picks its backend by \<open>Platform.OS\<close>: on the web
  \<open>window.localStorage\<close>, which may be missing (then reads give \<open>null\<close> and writes do
  nothing), elsewhere \<open>AsyncStorage\<close>.
\<close>

datatype storage = WebStorage "(string \<rightharpoonup> string) option" | AsyncStorage "string \<rightharpoonup> string"

fun persisted :: "storage \<Rightarrow> string \<rightharpoonup> string" where
  "persisted (WebStorage None) = Map.empty"
| "persisted (WebStorage (Some m)) = m"
| "persisted (AsyncStorage m) = m"

fun has_backend :: "storage \<Rightarrow> bool" where
  "has_backend (WebStorage None) = False"
| "has_backend _ = True"

fun store :: "(string \<rightharpoonup> string) \<Rightarrow> storage \<Rightarrow> storage" where
  "store m (WebStorage None) = WebStorage None"
| "store m (WebStorage (Some _)) = WebStorage (Some m)"
| "store m (AsyncStorage _) = AsyncStorage m"

text \<open>
  What the provider holds and touches: the four React state variables, the storage, and
  the route last given to \<open>router.replace\<close>.
\<close>

record world =
  user :: "User option"
  token :: "string option"
  isLoading :: bool
  error :: "string option"
  storage :: storage
  route :: "string option"

text \<open>
  The collaborators, as they answer during one operation. \<open>apiLogin\<close>,
  \<open>apiRegister\<close>, \<open>apiVerifyToken\<close>, \<open>apiLogout\<close> and \<open>apiRefreshToken\<close>
  are the methods of \<open>apiService\<close> as the provider sees them, at their declared
  types: they settle or reject. A storage call on an existing backend and
  \<open>router.replace\<close> may throw (\<open>Some\<close> the error). \<open>JSON.parse\<close> of the stored
  user data throws, or gives \<open>null\<close> (\<open>None\<close>) or a value read as a
  \<open>User\<close>; \<open>JSON.stringify\<close> gives a text, or \<open>undefined\<close> (\<open>None\<close>).
  Where a write is passed a missing value instead of a string, the backend stores the text
  \<open>missing_text\<close> for it, unless the write throws.
\<close>

record env =
  apiLogin :: "LoginCredentials \<Rightarrow> js_error + AuthResponse"
  apiRegister :: "RegisterData \<Rightarrow> js_error + AuthResponse"
  apiVerifyToken :: "string \<Rightarrow> js_error + unit"
  apiLogout :: "string \<Rightarrow> js_error + unit"
  apiRefreshToken :: "string \<Rightarrow> js_error + AuthResponse"
  getItem_fails :: "string \<Rightarrow> js_error option"
  setItem_fails :: "string \<Rightarrow> js_error option"
  clear_fails :: "js_error option"
  replace_fails :: "js_error option"
  JSON_parse :: "string \<Rightarrow> js_error + User option"
  JSON_stringify :: "User option \<Rightarrow> string option"
  missing_text :: string

text \<open>
  An \<open>async\<close> function body: from the world to its completion (\<open>Inl\<close> a thrown
  error, \<open>Inr\<close> a value) and the world it leaves.
\<close>

type_synonym 'a action = "world \<Rightarrow> (js_error + 'a) \<times> world"

definition done_with :: "'a \<Rightarrow> 'a action" where
  "done_with x = (\<lambda>w. (Inr x, w))"

definition throw :: "js_error \<Rightarrow> 'a action" where
  "throw e = (\<lambda>w. (Inl e, w))"

definition await :: "'a action \<Rightarrow> ('a \<Rightarrow> 'b action) \<Rightarrow> 'b action" where
  "await m f = (\<lambda>w. case m w of (Inl e, w') \<Rightarrow> (Inl e, w') | (Inr x, w') \<Rightarrow> f x w')"

text \<open>Statements in sequence.\<close>

fun block :: "unit action list \<Rightarrow> unit action" where
  "block [] = done_with ()"
| "block (m # ms) = await m (\<lambda>_. block ms)"

text \<open>\<open>try { m } catch (e) { h e }\<close> and \<open>try { m } finally { f }\<close>.\<close>

definition try_catch :: "'a action \<Rightarrow> (js_error \<Rightarrow> 'a action) \<Rightarrow> 'a action" where
  "try_catch m h = (\<lambda>w. case m w of (Inl e, w') \<Rightarrow> h e w' | (Inr x, w') \<Rightarrow> (Inr x, w'))"

definition try_finally :: "'a action \<Rightarrow> unit action \<Rightarrow> 'a action" where
  "try_finally m f =
     (\<lambda>w. case m w of (r, w') \<Rightarrow>
        (case f w' of (Inl e, w'') \<Rightarrow> (Inl e, w'') | (Inr _, w'') \<Rightarrow> (r, w'')))"

text \<open>The result of a collaborator's call, awaited; its value dropped where the code drops it.\<close>

definition settle :: "js_error + 'a \<Rightarrow> 'a action" where
  "settle r = (\<lambda>w. (r, w))"

definition ignore :: "'a action \<Rightarrow> unit action" where
  "ignore m = await m (\<lambda>_. done_with ())"

definition setUser :: "User option \<Rightarrow> unit action" where
  "setUser u = (\<lambda>w. (Inr (), w\<lparr>user := u\<rparr>))"

definition setToken :: "string option \<Rightarrow> unit action" where
  "setToken t = (\<lambda>w. (Inr (), w\<lparr>token := t\<rparr>))"

definition setIsLoading :: "bool \<Rightarrow> unit action" where
  "setIsLoading b = (\<lambda>w. (Inr (), w\<lparr>isLoading := b\<rparr>))"

definition setError :: "string option \<Rightarrow> unit action" where
  "setError e = (\<lambda>w. (Inr (), w\<lparr>error := e\<rparr>))"

text \<open>\<open>class CrossPlatformStorage\<close>\<close>

definition getItem :: "env \<Rightarrow> string \<Rightarrow> string option action" where
  "getItem E key =
     (\<lambda>w. if has_backend (storage w) then
             (case getItem_fails E key of
                Some e \<Rightarrow> (Inl e, w)
              | None \<Rightarrow> (Inr (persisted (storage w) key), w))
           else (Inr None, w))"

definition setItem :: "env \<Rightarrow> string \<Rightarrow> string option \<Rightarrow> unit action" where
  "setItem E key v =
     (\<lambda>w. if has_backend (storage w) then
             (case setItem_fails E key of
                Some e \<Rightarrow> (Inl e, w)
              | None \<Rightarrow>
                  (Inr (),
                   w\<lparr>storage :=
                       store ((persisted (storage w))
                                (key \<mapsto> (case v of Some text \<Rightarrow> text | None \<Rightarrow> missing_text E)))
                         (storage w)\<rparr>))
           else (Inr (), w))"

definition clear :: "env \<Rightarrow> unit action" where
  "clear E =
     (\<lambda>w. if has_backend (storage w) then
             (case clear_fails E of
                Some e \<Rightarrow> (Inl e, w)
              | None \<Rightarrow> (Inr (), w\<lparr>storage := store Map.empty (storage w)\<rparr>))
           else (Inr (), w))"

definition router_replace :: "env \<Rightarrow> string \<Rightarrow> unit action" where
  "router_replace E path =
     (\<lambda>w. case replace_fails E of
             Some e \<Rightarrow> (Inl e, w)
           | None \<Rightarrow> (Inr (), w\<lparr>route := Some path\<rparr>))"

text \<open>
  \<open>e.message || fallback\<close>, and the test \<open>if (token)\<close>: \<open>null\<close> and the empty
  string are falsy.
\<close>

definition message_or :: "js_error \<Rightarrow> string \<Rightarrow> string" where
  "message_or e fallback = (if message e \<noteq> [] then message e else fallback)"

text \<open>
  The operations close over the \<open>token\<close> of the render they were created in: it is the
  argument \<open>tok\<close>, while the setters act on the current state. The \<open>console\<close> calls
  are left out.
\<close>

definition logout :: "env \<Rightarrow> string option \<Rightarrow> unit action" where
  "logout E tok =
     try_finally
       (try_catch
          (block
             [setIsLoading True,
              setError None,
              (case tok of
                 Some t \<Rightarrow>
                   if t \<noteq> [] then
                     try_catch (ignore (settle (apiLogout E t))) (\<lambda>logoutError. done_with ())
                   else done_with ()
               | None \<Rightarrow> done_with ()),
              setUser None,
              setToken None,
              clear E,
              router_replace E ''/login''])
          (\<lambda>err. block
             [setError (Some ''Logout failed, but session was cleared locally.''),
              setUser None,
              setToken None]))
       (setIsLoading False)"

text \<open>
  \<open>loadStoredAuthData\<close> runs once, from the effect of the first render; the
  \<open>logout\<close> it calls is that render's, whose \<open>token\<close> is \<open>null\<close>.
\<close>

definition loadStoredAuthData :: "env \<Rightarrow> unit action" where
  "loadStoredAuthData E =
     try_finally
       (try_catch
          (block
             [setIsLoading True,
              await (getItem E ''authToken'') (\<lambda>storedToken.
              await (getItem E ''userData'') (\<lambda>storedUserData.
                case (storedToken, storedUserData) of
                  (Some t, Some d) \<Rightarrow>
                    if t \<noteq> [] \<and> d \<noteq> [] then
                      await (settle (JSON_parse E d)) (\<lambda>parsedUser.
                        block
                          [setUser parsedUser,
                           setToken (Some t),
                           try_catch (ignore (settle (apiVerifyToken E t)))
                             (\<lambda>verifyError. logout E None)])
                    else done_with ()
                | _ \<Rightarrow> done_with ()))])
          (\<lambda>e. setError (Some ''Failed to load session.'')))
       (setIsLoading False)"

text \<open>What \<open>login\<close>, \<open>register\<close> and \<open>refreshToken\<close> do with a response.\<close>

definition login :: "env \<Rightarrow> LoginCredentials \<Rightarrow> unit action" where
  "login E credentials =
     try_finally
       (try_catch
          (block
             [setIsLoading True,
              setError None,
              await (settle (apiLogin E credentials)) (\<lambda>response.
                block
                  [setUser (resp_user response),
                   setToken (resp_token response),
                   setItem E ''authToken'' (resp_token response),
                   setItem E ''userData'' (JSON_stringify E (resp_user response))])])
          (\<lambda>err. block
             [setError (Some (message_or err ''Login failed. Please try again.'')),
              throw err]))
       (setIsLoading False)"

definition register :: "env \<Rightarrow> RegisterData \<Rightarrow> unit action" where
  "register E userData =
     try_finally
       (try_catch
          (block
             [setIsLoading True,
              setError None,
              await (settle (apiRegister E userData)) (\<lambda>response.
                block
                  [setUser (resp_user response),
                   setToken (resp_token response),
                   setItem E ''authToken'' (resp_token response),
                   setItem E ''userData'' (JSON_stringify E (resp_user response))])])
          (\<lambda>err. block
             [setError (Some (message_or err ''Registration failed. Please try again.'')),
              throw err]))
       (setIsLoading False)"

definition refreshToken :: "env \<Rightarrow> string option \<Rightarrow> unit action" where
  "refreshToken E tok =
     try_finally
       (try_catch
          (block
             [setIsLoading True,
              setError None,
              (case tok of
                 Some t \<Rightarrow>
                   if t \<noteq> [] then
                     await (settle (apiRefreshToken E t)) (\<lambda>response.
                       block
                         [setToken (resp_token response),
                          setUser (resp_user response),
                          setItem E ''authToken'' (resp_token response),
                          setItem E ''userData'' (JSON_stringify E (resp_user response))])
                   else throw (Error ''No token available for refresh'')
               | None \<Rightarrow> throw (Error ''No token available for refresh''))])
          (\<lambda>err. block
             [setError (Some ''Session expired. Please log in again.''),
              logout E tok,
              throw err]))
       (setIsLoading False)"

text \<open>
  The provider's first state, and runs of operations: each with the collaborators'
  answers during it, and called from the latest render (its \<open>token\<close> is the state's).
\<close>

definition initial :: "storage \<Rightarrow> world" where
  "initial st =
     \<lparr>user = None, token = None, isLoading = True, error = None, storage = st, route = None\<rparr>"

datatype auth_call = Restore | Login LoginCredentials | Register RegisterData | Refresh | Logout

fun perform :: "world \<Rightarrow> env \<times> auth_call \<Rightarrow> world" where
  "perform w (E, Restore) = snd (loadStoredAuthData E w)"
| "perform w (E, Login credentials) = snd (login E credentials w)"
| "perform w (E, Register userData) = snd (register E userData w)"
| "perform w (E, Refresh) = snd (refreshToken E (token w) w)"
| "perform w (E, Logout) = snd (logout E (token w) w)"

definition run_auth :: "(env \<times> auth_call) list \<Rightarrow> world \<Rightarrow> world" where
  "run_auth calls w = foldl perform w calls"

text \<open>
  What an operation receives is whole when the answer of \<open>login\<close>, \<open>register\<close> or
  \<open>refreshToken\<close> (to the token it is called with) carries a user and a token together
  or neither, and when restore does not find, beside a stored token that the server
  accepts, stored user data that parses to \<open>null\<close>. A run receives whole answers when
  each of its operations does, in the world it is called in.
\<close>

definition whole_answer :: "js_error + AuthResponse \<Rightarrow> bool" where
  "whole_answer a =
     (case a of Inl e \<Rightarrow> True | Inr r \<Rightarrow> (resp_user r = None) = (resp_token r = None))"

fun receives_whole :: "world \<Rightarrow> env \<times> auth_call \<Rightarrow> bool" where
  "receives_whole w (E, Restore) =
     (case (persisted (storage w) ''authToken'', persisted (storage w) ''userData'') of
        (Some t, Some d) \<Rightarrow>
          t \<noteq> [] \<and> d \<noteq> [] \<and> apiVerifyToken E t = Inr () \<longrightarrow> JSON_parse E d \<noteq> Inr None
      | _ \<Rightarrow> True)"
| "receives_whole w (E, Login credentials) = whole_answer (apiLogin E credentials)"
| "receives_whole w (E, Register userData) = whole_answer (apiRegister E userData)"
| "receives_whole w (E, Refresh) =
     (case token w of
        Some t \<Rightarrow> t \<noteq> [] \<longrightarrow> whole_answer (apiRefreshToken E t)
      | None \<Rightarrow> True)"
| "receives_whole w (E, Logout) = True"

fun run_receives_whole :: "(env \<times> auth_call) list \<Rightarrow> world \<Rightarrow> bool" where
  "run_receives_whole [] w = True"
| "run_receives_whole (c # calls) w = (receives_whole w c \<and> run_receives_whole calls (perform w c))"

text \<open>A session is fully present or fully absent.\<close>

definition session_whole :: "world \<Rightarrow> bool" where
  "session_whole w \<longleftrightarrow> (user w = None) = (token w = None)"

definition storage_cleared :: "world \<Rightarrow> bool" where
  "storage_cleared w \<longleftrightarrow> persisted (storage w) = Map.empty"

section \<open>Example data\<close>

text \<open>Concrete cylinders, a user, a form and a fragment of \<open>parseFloat\<close> for the examples.\<close>

definition single_stock :: GasCylinder where
  "single_stock =
     \<lparr>cid = ''c1'', name = ''6kg'', weight = 6, price = 20000, description = None,
      brand = None, stockQuantity = 1, isAvailable = True\<rparr>"

definition restocked :: GasCylinder where
  "restocked = single_stock\<lparr>stockQuantity := 2\<rparr>"

definition out_of_stock :: GasCylinder where
  "out_of_stock = single_stock\<lparr>stockQuantity := 0\<rparr>"

definition large :: GasCylinder where
  "large =
     \<lparr>cid = ''c2'', name = ''13kg'', weight = 13, price = 15000, description = None,
      brand = None, stockQuantity = 3, isAvailable = True\<rparr>"

definition sample_parseFloat :: "string \<Rightarrow> number" where
  "sample_parseFloat s =
     (if s = ''95'' then Num 95
      else if s = ''0.3476'' then Num (3476 / 10000)
      else if s = ''32.5825'' then Num (325825 / 10000)
      else NaN)"

definition alice :: User where
  "alice =
     \<lparr>uid = ''u1'', email = ''alice@example.com'', firstName = ''Alice'', lastName = ''Namu'',
      phone = ''+256700000001'', userRole = Customer, address = Some ''Plot 1, Kampala'',
      latitude = None, longitude = None, isActive = True, createdAt = ''2024-01-01''\<rparr>"

text \<open>\<open>String.prototype.trim\<close> on text whose white space is ASCII.\<close>

definition ascii_space :: "char \<Rightarrow> bool" where
  "ascii_space c = (c \<in> set [CHR '' '', CHR 0x09, CHR 0x0A, CHR 0x0B, CHR 0x0C, CHR 0x0D])"

definition ascii_trim :: "string \<Rightarrow> string" where
  "ascii_trim s = rev (dropWhile ascii_space (rev (dropWhile ascii_space s)))"

definition north_form :: order_form where
  "north_form =
     \<lparr>cart = [cartItem large 1], deliveryAddress = '' Plot 1, Kampala '', deliveryLat = ''95'',
      deliveryLng = ''32.5825'', instructions = [], loading = False\<rparr>"

definition unreachable :: env where
  "unreachable =
     \<lparr>apiLogin = (\<lambda>_. Inl (Error ''Network request failed'')),
      apiRegister = (\<lambda>_. Inl (Error ''Network request failed'')),
      apiVerifyToken = (\<lambda>_. Inl (Error ''Network request failed'')),
      apiLogout = (\<lambda>_. Inl (Error ''Network request failed'')),
      apiRefreshToken = (\<lambda>_. Inl (Error ''Network request failed'')),
      getItem_fails = (\<lambda>_. None),
      setItem_fails = (\<lambda>_. None),
      clear_fails = None,
      replace_fails = None,
      JSON_parse = (\<lambda>d. if d = ''{alice}'' then Inr (Some alice)
                          else if d = ''null'' then Inr None
                          else Inl (Error ''JSON Parse error: Unexpected token'')),
      JSON_stringify = (\<lambda>u. case u of Some _ \<Rightarrow> Some ''{alice}'' | None \<Rightarrow> Some ''null''),
      missing_text = ''undefined''\<rparr>"

text \<open>
  A server that verifies every token and answers a login with a token and the user; one
  that answers a login with a token and \<open>user: null\<close>.
\<close>

definition online :: env where
  "online =
     unreachable
       \<lparr>apiLogin := (\<lambda>_. Inr \<lparr>resp_message = ''Login successful'', resp_token = Some ''tok'',
                                 resp_user = Some alice\<rparr>),
        apiVerifyToken := (\<lambda>_. Inr ())\<rparr>"

definition half_answer :: env where
  "half_answer =
     online
       \<lparr>apiLogin := (\<lambda>_. Inr \<lparr>resp_message = ''Login successful'', resp_token = Some ''tok'',
                                 resp_user = None\<rparr>)\<rparr>"

definition alice_login :: LoginCredentials where
  "alice_login = \<lparr>login_email = ''alice@example.com'', login_password = ''secret''\<rparr>"

definition clear_rejects :: env where
  "clear_rejects = unreachable\<lparr>clear_fails := Some (Error ''Failed to clear storage'')\<rparr>"

definition device :: storage where
  "device = AsyncStorage [''authToken'' \<mapsto> ''tok'', ''userData'' \<mapsto> ''{alice}'']"

text \<open>A device whose stored user data is the text \<open>null\<close>.\<close>

definition null_device :: storage where
  "null_device = AsyncStorage [''authToken'' \<mapsto> ''tok'', ''userData'' \<mapsto> ''null'']"

definition signed_in :: world where
  "signed_in =
     \<lparr>user = Some alice, token = Some ''tok'', isLoading = False, error = None,
      storage = device, route = None\<rparr>"

definition bad_gateway :: Response where
  "bad_gateway = \<lparr>status = 502, json_body = Inl (Error ''JSON Parse error: Unexpected token: <'')\<rparr>"

definition conflict :: Response where
  "conflict = \<lparr>status = 409, json_body = Inr (JObj [(''error'', JStr ''Email already exists'')])\<rparr>"

definition no_content :: Response where
  "no_content = \<lparr>status = 204, json_body = Inl (Error ''JSON Parse error: Unexpected end of input'')\<rparr>"

definition get_options :: RequestInit where
  "get_options = \<lparr>http_method = ''GET'', headers = Map.empty, body = None\<rparr>"

definition sample_order :: CreateOrderPayload where
  "sample_order =
     \<lparr>customerId = ''u1'', items = Some [\<lparr>cylinderId = ''c2'', orderQuantity = 1\<rparr>],
      orderAddress = ''Plot 1, Kampala'', deliveryLatitude = Num (3476 / 10000),
      deliveryLongitude = Num (325825 / 10000), specialInstructions = None\<rparr>"

text \<open>
  The message the specification's words give for a response that is not a success: the
  body's \<open>error\<close>, else its \<open>message\<close>, else the generic text, and the generic
  text too when the body cannot be parsed. It is compared with what \<open>request\<close>
  raises.
\<close>

definition spec_error_message :: "Response \<Rightarrow> string" where
  "spec_error_message r =
     (case json_body r of
        Inr (JObj kvs) \<Rightarrow>
          (case map_of kvs ''error'' of
             Some (JStr e) \<Rightarrow> e
           | _ \<Rightarrow>
               (case map_of kvs ''message'' of
                  Some (JStr m) \<Rightarrow> m
                | _ \<Rightarrow> ''HTTP error! status: '' @ show_int (status r)))
      | _ \<Rightarrow> ''HTTP error! status: '' @ show_int (status r))"

section \<open>Invariants used in the proofs\<close>

text \<open>
  An item of the cart, relative to the cylinders \<open>cs\<close> passed to \<open>addToCart\<close>: its
  \<open>stockQuantity\<close> is that of a cylinder of \<open>cs\<close> of its id, and its quantity is at
  most the \<open>stockQuantity\<close> of a cylinder of \<open>cs\<close> of its id.
\<close>

definition stocked :: "GasCylinder list \<Rightarrow> CartItem \<Rightarrow> bool" where
  "stocked cs item \<longleftrightarrow>
     (\<exists>c \<in> set cs. cid c = cid item \<and> stockQuantity c = stockQuantity item) \<and>
     (\<exists>c \<in> set cs. cid c = cid item \<and> quantity item \<le> stockQuantity c)"

text \<open>The world a \<open>logout\<close> leaves.\<close>

definition after_logout :: "env \<Rightarrow> string option \<Rightarrow> world \<Rightarrow> world" where
  "after_logout E tok w = snd (logout E tok w)"

section \<open>The cart\<close>

lemma find_Some_D: "find P xs = Some x \<Longrightarrow> x \<in> set xs \<and> P x"
  by (induction xs) (auto split: if_splits)

lemma updateQuantity_Nil: "updateQuantity i d [] = []"
  by (simp add: updateQuantity_def List.map_filter_simps)

lemma updateQuantity_Cons:
  "updateQuantity i d (x # xs) =
     (if cid x = i then
        (if quantity x + d \<le> 0 then updateQuantity i d xs
         else if quantity x + d > stockQuantity x then x # updateQuantity i d xs
         else x\<lparr>quantity := quantity x + d\<rparr> # updateQuantity i d xs)
      else x # updateQuantity i d xs)"
  by (simp add: updateQuantity_def List.map_filter_simps Let_def)

lemma map_cid_increment:
  "map cid (map (\<lambda>item. if cid item = k then item\<lparr>quantity := quantity item + 1\<rparr> else item) prev) = map cid prev"
  by (induction prev) auto

lemma distinct_addToCart:
  assumes "distinct (map cid prev)"
  shows "distinct (map cid (addToCart c prev))"
proof (cases "find (\<lambda>item. cid item = cid c) prev")
  case None
  then have "cid c \<notin> cid ` set prev" by (auto simp: find_None_iff)
  with None assms show ?thesis by (simp add: addToCart_def cartItem_def)
next
  case (Some existing)
  with assms show ?thesis
    by (simp add: addToCart_def map_cid_increment del: map_map)
qed

lemma cid_updateQuantity:
  "x \<in> set (updateQuantity i d prev) \<Longrightarrow> cid x \<in> cid ` set prev"
  by (induction prev) (auto simp: updateQuantity_Nil updateQuantity_Cons split: if_splits)

lemma distinct_updateQuantity:
  "distinct (map cid prev) \<Longrightarrow> distinct (map cid (updateQuantity i d prev))"
  by (induction prev) (auto simp: updateQuantity_Nil updateQuantity_Cons dest: cid_updateQuantity)

lemma addToCart_new:
  "find (\<lambda>item. cid item = cid c) prev = None \<Longrightarrow> addToCart c prev = prev @ [cartItem c 1]"
  unfolding addToCart_def by (simp only: option.case)

lemma addToCart_full:
  "find (\<lambda>item. cid item = cid c) prev = Some existing \<Longrightarrow> quantity existing \<ge> stockQuantity c \<Longrightarrow>
     addToCart c prev = prev"
  unfolding addToCart_def by (simp only: option.case if_True)

lemma addToCart_increment:
  "find (\<lambda>item. cid item = cid c) prev = Some existing \<Longrightarrow> \<not> quantity existing \<ge> stockQuantity c \<Longrightarrow>
     addToCart c prev = map (\<lambda>item. if cid item = cid c then item\<lparr>quantity := quantity item + 1\<rparr> else item) prev"
  unfolding addToCart_def by (simp only: option.case if_False)

lemma updateQuantity_other:
  "cid item \<notin> cid ` set prev \<Longrightarrow> updateQuantity (cid item) d prev = prev"
  by (induction prev) (auto simp: updateQuantity_Nil updateQuantity_Cons)

lemma updateQuantity_removes:
  assumes "distinct (map cid prev)" "item \<in> set prev" "quantity item + d \<le> 0"
  shows "cid item \<notin> cid ` set (updateQuantity (cid item) d prev)"
  using assms
proof (induction prev)
  case Nil
  then show ?case by simp
next
  case (Cons a prev)
  show ?case
  proof (cases "a = item")
    case True
    then have "cid item \<notin> cid ` set prev" using Cons.prems(1) by auto
    then have "updateQuantity (cid item) d prev = prev" by (rule updateQuantity_other)
    with True Cons.prems \<open>cid item \<notin> cid ` set prev\<close> show ?thesis
      by (simp add: updateQuantity_Cons)
  next
    case False
    then have it: "item \<in> set prev" using Cons.prems(2) by simp
    then have ne: "cid a \<noteq> cid item" using Cons.prems(1) by auto
    have "cid item \<notin> cid ` set (updateQuantity (cid item) d prev)"
      using Cons.IH Cons.prems(1,3) it by simp
    with ne show ?thesis by (simp add: updateQuantity_Cons)
  qed
qed

lemma updateQuantity_unchanged:
  assumes "distinct (map cid prev)" "item \<in> set prev" "quantity item + d > stockQuantity item"
    "0 < quantity item + d"
  shows "updateQuantity (cid item) d prev = prev"
  using assms
proof (induction prev)
  case Nil
  then show ?case by simp
next
  case (Cons a prev)
  show ?case
  proof (cases "a = item")
    case True
    then have "cid item \<notin> cid ` set prev" using Cons.prems(1) by auto
    then have "updateQuantity (cid item) d prev = prev" by (rule updateQuantity_other)
    with True Cons.prems show ?thesis
      by (simp add: updateQuantity_Cons)
  next
    case False
    then have it: "item \<in> set prev" using Cons.prems(2) by simp
    then have ne: "cid a \<noteq> cid item" using Cons.prems(1) by auto
    have "updateQuantity (cid item) d prev = prev"
      using Cons.IH Cons.prems(1,3,4) it by simp
    with ne show ?thesis by (simp add: updateQuantity_Cons)
  qed
qed

lemma set_updateQuantity:
  "x \<in> set (updateQuantity i d prev) \<Longrightarrow>
     x \<in> set prev \<or>
     (\<exists>item \<in> set prev. 0 < quantity item + d \<and> quantity item + d \<le> stockQuantity item \<and>
        x = item\<lparr>quantity := quantity item + d\<rparr>)"
proof (induction prev)
  case Nil
  then show ?case by (simp add: updateQuantity_Nil)
next
  case (Cons a prev)
  from Cons.prems have "x \<in> set (updateQuantity i d prev) \<or> x = a \<or>
      (0 < quantity a + d \<and> quantity a + d \<le> stockQuantity a \<and> x = a\<lparr>quantity := quantity a + d\<rparr>)"
    by (simp add: updateQuantity_Cons split: if_splits) blast+
  then show ?case using Cons.IH by (simp only: list.set) blast
qed

lemma set_addToCart:
  assumes d: "distinct (map cid prev)" and x: "x \<in> set (addToCart c prev)"
  shows "x \<in> set prev \<or> x = cartItem c 1 \<or>
     (\<exists>e \<in> set prev. find (\<lambda>item. cid item = cid c) prev = Some e \<and>
        quantity e < stockQuantity c \<and> x = e\<lparr>quantity := quantity e + 1\<rparr>)"
proof (cases "find (\<lambda>item. cid item = cid c) prev")
  case None
  from x have "x = cartItem c 1 \<or> x \<in> set prev" unfolding addToCart_new [OF None] by simp
  then show ?thesis by blast
next
  case (Some e)
  then have ex: "e \<in> set prev" "cid e = cid c"
    using find_Some_D [of "\<lambda>item. cid item = cid c" prev e] by blast+
  have "inj_on cid (set prev)" using d by (simp add: distinct_map)
  then have uniq: "\<And>item. item \<in> set prev \<Longrightarrow> cid item = cid c \<Longrightarrow> item = e"
    using ex unfolding inj_on_def by metis
  show ?thesis
  proof (cases "quantity e \<ge> stockQuantity c")
    case True
    from x show ?thesis unfolding addToCart_full [OF Some True] by simp
  next
    case False
    then have lt: "quantity e < stockQuantity c" by simp
    from x have "x \<in> (\<lambda>item. if cid item = cid c then item\<lparr>quantity := quantity item + 1\<rparr> else item) ` set prev"
      unfolding addToCart_increment [OF Some False] by (simp only: set_map)
    then obtain item where it: "item \<in> set prev"
      and xe: "x = (if cid item = cid c then item\<lparr>quantity := quantity item + 1\<rparr> else item)"
      by (rule imageE)
    show ?thesis
    proof (cases "cid item = cid c")
      case True
      then have "item = e" using uniq it by blast
      with True xe have "x = e\<lparr>quantity := quantity e + 1\<rparr>" by (simp only: if_True simp_thms)
      with ex(1) Some lt show ?thesis by blast
    next
      case False
      with xe it show ?thesis by (simp only: if_False) blast
    qed
  qed
qed

lemma distinct_run: "distinct (map cid prev) \<Longrightarrow> distinct (map cid (run_cart calls prev))"
proof (induction calls arbitrary: prev)
  case Nil
  then show ?case by (simp add: run_cart_def)
next
  case (Cons call calls)
  have "distinct (map cid (cart_step prev call))"
    using Cons.prems by (cases call) (simp_all add: distinct_addToCart distinct_updateQuantity)
  then have "distinct (map cid (run_cart calls (cart_step prev call)))" by (rule Cons.IH)
  then show ?case by (simp add: run_cart_def)
qed

text \<open>Quantities stay positive.\<close>

lemma positive_step:
  assumes d: "distinct (map cid prev)" and p: "\<forall>item \<in> set prev. 1 \<le> quantity item"
  shows "\<forall>item \<in> set (cart_step prev call). 1 \<le> quantity item"
proof
  fix x assume x: "x \<in> set (cart_step prev call)"
  show "1 \<le> quantity x"
  proof (cases call)
    case (AddToCart c)
    with x have "x \<in> set (addToCart c prev)" by simp
    from set_addToCart [OF d this] consider "x \<in> set prev" | "x = cartItem c 1"
      | e where "e \<in> set prev" "x = e\<lparr>quantity := quantity e + 1\<rparr>" by blast
    then show ?thesis
    proof cases
      case 1 with p show ?thesis by blast
    next
      case 2 then show ?thesis by (simp add: cartItem_def)
    next
      case 3
      with p have "1 \<le> quantity e" by blast
      with 3 show ?thesis by simp
    qed
  next
    case (UpdateQuantity i ch)
    with x have "x \<in> set (updateQuantity i ch prev)" by simp
    from set_updateQuantity [OF this] consider "x \<in> set prev"
      | item where "0 < quantity item + ch" "x = item\<lparr>quantity := quantity item + ch\<rparr>" by blast
    then show ?thesis
    proof cases
      case 1 with p show ?thesis by blast
    next
      case 2 then show ?thesis by simp
    qed
  qed
qed

lemma positive_run:
  "distinct (map cid prev) \<Longrightarrow> \<forall>item \<in> set prev. 1 \<le> quantity item \<Longrightarrow>
     \<forall>item \<in> set (run_cart calls prev). 1 \<le> quantity item"
proof (induction calls arbitrary: prev)
  case Nil
  then show ?case by (simp add: run_cart_def)
next
  case (Cons call calls)
  have d: "distinct (map cid (cart_step prev call))"
    using Cons.prems(1) by (cases call) (simp_all add: distinct_addToCart distinct_updateQuantity)
  have "\<forall>item \<in> set (cart_step prev call). 1 \<le> quantity item"
    using Cons.prems by (rule positive_step)
  with d have "\<forall>item \<in> set (run_cart calls (cart_step prev call)). 1 \<le> quantity item"
    by (rule Cons.IH)
  then show ?case by (simp add: run_cart_def)
qed

text \<open>Every item carries the stock of a cylinder passed, and at most the stock of one.\<close>

lemma stocked_new: "c \<in> set cs \<Longrightarrow> 1 \<le> stockQuantity c \<Longrightarrow> stocked cs (cartItem c 1)"
  unfolding stocked_def by (rule conjI; rule bexI [of _ c]) (simp_all add: cartItem_def)

lemma stocked_increment:
  assumes "stocked cs e" "c \<in> set cs" "cid e = cid c" "quantity e < stockQuantity c"
  shows "stocked cs (e\<lparr>quantity := quantity e + 1\<rparr>)"
proof -
  from assms(1) obtain c0 where "c0 \<in> set cs" "cid c0 = cid e" "stockQuantity c0 = stockQuantity e"
    unfolding stocked_def by blast
  then have 1: "\<exists>c' \<in> set cs. cid c' = cid (e\<lparr>quantity := quantity e + 1\<rparr>) \<and>
      stockQuantity c' = stockQuantity (e\<lparr>quantity := quantity e + 1\<rparr>)"
    by (intro bexI [of _ c0]) simp_all
  have 2: "\<exists>c' \<in> set cs. cid c' = cid (e\<lparr>quantity := quantity e + 1\<rparr>) \<and>
      quantity (e\<lparr>quantity := quantity e + 1\<rparr>) \<le> stockQuantity c'"
    using assms(2,3,4) by (intro bexI [of _ c]) simp_all
  from 1 2 show ?thesis unfolding stocked_def by (rule conjI)
qed

lemma stocked_update:
  assumes "stocked cs item" "q \<le> stockQuantity item"
  shows "stocked cs (item\<lparr>quantity := q\<rparr>)"
proof -
  from assms(1) obtain c0 where c0: "c0 \<in> set cs" "cid c0 = cid item" "stockQuantity c0 = stockQuantity item"
    unfolding stocked_def by blast
  then have 1: "\<exists>c' \<in> set cs. cid c' = cid (item\<lparr>quantity := q\<rparr>) \<and>
      stockQuantity c' = stockQuantity (item\<lparr>quantity := q\<rparr>)"
    by (intro bexI [of _ c0]) simp_all
  have 2: "\<exists>c' \<in> set cs. cid c' = cid (item\<lparr>quantity := q\<rparr>) \<and>
      quantity (item\<lparr>quantity := q\<rparr>) \<le> stockQuantity c'"
    using c0 assms(2) by (intro bexI [of _ c0]) simp_all
  from 1 2 show ?thesis unfolding stocked_def by (rule conjI)
qed

lemma stocked_step:
  assumes d: "distinct (map cid prev)" and p: "\<forall>item \<in> set prev. stocked cs item"
    and sub: "set (added [call]) \<subseteq> set cs" and st: "in_stock cs"
  shows "\<forall>item \<in> set (cart_step prev call). stocked cs item"
proof
  fix x assume x: "x \<in> set (cart_step prev call)"
  show "stocked cs x"
  proof (cases call)
    case (AddToCart c)
    with sub have c: "c \<in> set cs" by simp
    with st have c1: "1 \<le> stockQuantity c" by (simp add: in_stock_def list_all_iff)
    from AddToCart x have "x \<in> set (addToCart c prev)" by simp
    from set_addToCart [OF d this] consider "x \<in> set prev" | "x = cartItem c 1"
      | e where "e \<in> set prev" "find (\<lambda>item. cid item = cid c) prev = Some e"
          "quantity e < stockQuantity c" "x = e\<lparr>quantity := quantity e + 1\<rparr>" by blast
    then show ?thesis
    proof cases
      case 1 with p show ?thesis by blast
    next
      case 2 with c c1 show ?thesis by (simp add: stocked_new)
    next
      case 3
      from 3(2) have "cid e = cid c"
        using find_Some_D [of "\<lambda>item. cid item = cid c" prev e] by blast
      moreover from p 3(1) have "stocked cs e" by blast
      ultimately show ?thesis using c 3(3,4) by (simp only: stocked_increment)
    qed
  next
    case (UpdateQuantity i ch)
    with x have "x \<in> set (updateQuantity i ch prev)" by simp
    from set_updateQuantity [OF this] consider "x \<in> set prev"
      | item where "item \<in> set prev" "quantity item + ch \<le> stockQuantity item"
          "x = item\<lparr>quantity := quantity item + ch\<rparr>" by blast
    then show ?thesis
    proof cases
      case 1 with p show ?thesis by blast
    next
      case 2
      with p have "stocked cs item" by blast
      with 2 show ?thesis by (simp only: stocked_update)
    qed
  qed
qed

lemma stocked_run:
  "distinct (map cid prev) \<Longrightarrow> \<forall>item \<in> set prev. stocked cs item \<Longrightarrow>
   set (added calls) \<subseteq> set cs \<Longrightarrow> in_stock cs \<Longrightarrow>
     \<forall>item \<in> set (run_cart calls prev). stocked cs item"
proof (induction calls arbitrary: prev)
  case Nil
  then show ?case by (simp add: run_cart_def)
next
  case (Cons call calls)
  have d: "distinct (map cid (cart_step prev call))"
    using Cons.prems(1) by (cases call) (simp_all add: distinct_addToCart distinct_updateQuantity)
  have s1: "set (added [call]) \<subseteq> set cs" and s2: "set (added calls) \<subseteq> set cs"
    using Cons.prems(3) by (cases call; simp)+
  have "\<forall>item \<in> set (cart_step prev call). stocked cs item"
    using Cons.prems(1,2) s1 Cons.prems(4) by (rule stocked_step)
  with d have "\<forall>item \<in> set (run_cart calls (cart_step prev call)). stocked cs item"
    using s2 Cons.prems(4) by (rule Cons.IH)
  then show ?case by (simp add: run_cart_def)
qed

text \<open>
  The item's own stock bounds its quantity as long as the stock does not rise under an item
  at its limit.
\<close>

lemma bounded_run:
  "distinct (map cid prev) \<Longrightarrow> \<forall>item \<in> set prev. quantity item \<le> stockQuantity item \<Longrightarrow>
   in_stock (added calls) \<Longrightarrow> no_rise_at_limit calls prev \<Longrightarrow>
     \<forall>item \<in> set (run_cart calls prev). quantity item \<le> stockQuantity item"
proof (induction calls arbitrary: prev)
  case Nil
  then show ?case by (simp add: run_cart_def)
next
  case (Cons call calls)
  have d: "distinct (map cid (cart_step prev call))"
    using Cons.prems(1) by (cases call) (simp_all add: distinct_addToCart distinct_updateQuantity)
  have st: "in_stock (added calls)"
    using Cons.prems(3) by (cases call) (simp_all add: in_stock_def)
  have nr: "no_rise_at_limit calls (cart_step prev call)"
    using Cons.prems(4) by (cases call) simp_all
  have step: "\<forall>item \<in> set (cart_step prev call). quantity item \<le> stockQuantity item"
  proof
    fix x assume x: "x \<in> set (cart_step prev call)"
    show "quantity x \<le> stockQuantity x"
    proof (cases call)
      case (AddToCart c)
      with Cons.prems(3) have c1: "1 \<le> stockQuantity c" by (simp add: in_stock_def)
      from AddToCart x have "x \<in> set (addToCart c prev)" by simp
      from set_addToCart [OF Cons.prems(1) this] consider "x \<in> set prev" | "x = cartItem c 1"
        | e where "e \<in> set prev" "find (\<lambda>item. cid item = cid c) prev = Some e"
            "quantity e < stockQuantity c" "x = e\<lparr>quantity := quantity e + 1\<rparr>" by blast
      then show ?thesis
      proof cases
        case 1 with Cons.prems(2) show ?thesis by blast
      next
        case 2 with c1 show ?thesis by (simp add: cartItem_def)
      next
        case 3
        from Cons.prems(4) AddToCart 3(2)
        have "quantity e < stockQuantity e \<or> stockQuantity c \<le> stockQuantity e" by simp
        with 3(3) have "quantity e + 1 \<le> stockQuantity e" by linarith
        with 3(4) show ?thesis by simp
      qed
    next
      case (UpdateQuantity i ch)
      with x have "x \<in> set (updateQuantity i ch prev)" by simp
      from set_updateQuantity [OF this] consider "x \<in> set prev"
        | item where "quantity item + ch \<le> stockQuantity item"
            "x = item\<lparr>quantity := quantity item + ch\<rparr>" by blast
      then show ?thesis
      proof cases
        case 1 with Cons.prems(2) show ?thesis by blast
      next
        case 2 then show ?thesis by simp
      qed
    qed
  qed
  from d step st nr
  have "\<forall>item \<in> set (run_cart calls (cart_step prev call)). quantity item \<le> stockQuantity item"
    by (rule Cons.IH)
  then show ?case by (simp add: run_cart_def)
qed

text \<open>The cylinders the screen offers all have stock.\<close>

lemma offered_in_stock: "in_stock (offered data)"
  by (simp add: in_stock_def offered_def list_all_iff)

text \<open>
  The bound by the item's own stock fails when the stock rises under an item that is at
  its limit: \<open>addToCart\<close> compares the quantity with the stock of the cylinder it is passed,
  the cart item keeps the stock it was created with. A cylinder added at stock 1 and added
  again after a reload at stock 2 is in the cart with quantity 2 and \<open>stockQuantity\<close> 1.
\<close>

theorem cart_quantity_within_stock_counterexample:
  "in_stock (added [AddToCart single_stock, AddToCart restocked]) \<and>
   \<not> within_stock (run_cart [AddToCart single_stock, AddToCart restocked] [])"
  by (simp add: in_stock_def within_stock_def run_cart_def addToCart_def cartItem_def
      single_stock_def restocked_def)

text \<open>
  Claim C1, as the code has it. For every sequence of \<open>addToCart\<close> and
  \<open>updateQuantity\<close> calls applied to the empty cart: every item of the resulting cart
  has a quantity of at least 1, and an \<open>updateQuantity\<close> on that cart that would bring
  an item to 0 or below removes the item. Over cylinders with \<open>stockQuantity \<ge> 1\<close>: an
  \<open>updateQuantity\<close> that would exceed the item's \<open>stockQuantity\<close> leaves the cart as
  it is, and every item's quantity is at most the \<open>stockQuantity\<close> of a cylinder that
  was passed to \<open>addToCart\<close> under its id. It is at most the item's own
  \<open>stockQuantity\<close> when, in addition, \<open>addToCart\<close> is never passed, for an item
  that has reached its own \<open>stockQuantity\<close>, a cylinder with a larger
  \<open>stockQuantity\<close>.
\<close>

theorem cart_quantity_within_stock:
  "(\<forall>item \<in> set (run_cart calls []). 1 \<le> quantity item) \<and>
   (\<forall>item change. item \<in> set (run_cart calls []) \<and> quantity item + change \<le> 0 \<longrightarrow>
      cid item \<notin> cid ` set (updateQuantity (cid item) change (run_cart calls []))) \<and>
   (in_stock (added calls) \<longrightarrow>
      (\<forall>item change. item \<in> set (run_cart calls []) \<and>
                     quantity item + change > stockQuantity item \<longrightarrow>
         updateQuantity (cid item) change (run_cart calls []) = run_cart calls []) \<and>
      (\<forall>item \<in> set (run_cart calls []).
         \<exists>c \<in> set (added calls). cid c = cid item \<and> quantity item \<le> stockQuantity c)) \<and>
   (in_stock (added calls) \<and> no_rise_at_limit calls [] \<longrightarrow> within_stock (run_cart calls []))"
proof -
  have d0: "distinct (map cid ([] :: CartItem list))" by simp
  have d: "distinct (map cid (run_cart calls []))" using d0 by (rule distinct_run)
  have pos: "\<forall>item \<in> set (run_cart calls []). 1 \<le> quantity item"
    using d0 by (rule positive_run) simp
  have removes: "cid item \<notin> cid ` set (updateQuantity (cid item) change (run_cart calls []))"
    if "item \<in> set (run_cart calls [])" "quantity item + change \<le> 0" for item change
    using d that by (rule updateQuantity_removes)
  have st: "\<forall>item \<in> set (run_cart calls []). stocked (added calls) item"
    if "in_stock (added calls)"
    using d0 _ _ that by (rule stocked_run) simp_all
  have rejects: "updateQuantity (cid item) change (run_cart calls []) = run_cart calls []"
    if s: "in_stock (added calls)" and it: "item \<in> set (run_cart calls [])"
      and gt: "quantity item + change > stockQuantity item" for item change
  proof -
    from st [OF s] it obtain c where "c \<in> set (added calls)" "stockQuantity c = stockQuantity item"
      unfolding stocked_def by blast
    with s have "1 \<le> stockQuantity item" by (auto simp: in_stock_def list_all_iff)
    with gt have "0 < quantity item + change" by linarith
    with d it gt show ?thesis by (rule updateQuantity_unchanged)
  qed
  have passed: "\<exists>c \<in> set (added calls). cid c = cid item \<and> quantity item \<le> stockQuantity c"
    if s: "in_stock (added calls)" and it: "item \<in> set (run_cart calls [])" for item
    using st [OF s] it unfolding stocked_def by blast
  have own: "within_stock (run_cart calls [])"
    if s: "in_stock (added calls)" and nr: "no_rise_at_limit calls []"
  proof -
    have "\<forall>item \<in> set (run_cart calls []). quantity item \<le> stockQuantity item"
      using d0 _ s nr by (rule bounded_run) simp
    with pos show ?thesis by (simp add: within_stock_def list_all_iff)
  qed
  from pos removes rejects passed own show ?thesis by blast
qed

text \<open>
  An instance with falling stock: a cylinder added twice at stock 2 and once more at stock
  1 stays at quantity 2; a second cylinder is added and removed again.
\<close>

theorem cart_quantity_within_stock_witness:
  "in_stock (added [AddToCart restocked, AddToCart restocked, AddToCart single_stock,
                    AddToCart large, UpdateQuantity ''c2'' (- 1)]) \<and>
   no_rise_at_limit [AddToCart restocked, AddToCart restocked, AddToCart single_stock,
            AddToCart large, UpdateQuantity ''c2'' (- 1)] [] \<and>
   run_cart [AddToCart restocked, AddToCart restocked, AddToCart single_stock,
             AddToCart large, UpdateQuantity ''c2'' (- 1)] [] = [cartItem restocked 2] \<and>
   within_stock [cartItem restocked 2] \<and>
   updateQuantity ''c1'' 1 [cartItem restocked 2] = [cartItem restocked 2] \<and>
   updateQuantity ''c1'' (- 2) [cartItem restocked 2] = []"
proof -
  let ?calls = "[AddToCart restocked, AddToCart restocked, AddToCart single_stock,
                 AddToCart large, UpdateQuantity ''c2'' (- 1)]"
  have h1: "in_stock (added ?calls)"
    by (simp add: in_stock_def large_def single_stock_def restocked_def)
  have h2: "no_rise_at_limit ?calls []"
    by (simp add: addToCart_def cartItem_def large_def single_stock_def restocked_def)
  have r: "run_cart ?calls [] = [cartItem restocked 2]"
    by (simp add: run_cart_def addToCart_def updateQuantity_def List.map_filter_simps
        cartItem_def large_def single_stock_def restocked_def)
  have u1: "updateQuantity ''c1'' 1 [cartItem restocked 2] = [cartItem restocked 2]"
    by (simp add: updateQuantity_def List.map_filter_simps cartItem_def restocked_def single_stock_def)
  have u2: "updateQuantity ''c1'' (- 2) [cartItem restocked 2] = []"
    by (simp add: updateQuantity_def List.map_filter_simps cartItem_def restocked_def single_stock_def)
  from cart_quantity_within_stock [of ?calls] h1 h2
  have "within_stock (run_cart ?calls [])" by blast
  with h1 h2 r u1 u2 show ?thesis by simp
qed

section \<open>Pricing\<close>

lemma foldl_subtotal:
  "foldl (\<lambda>sum item. sum + price item * quantity item) a prev
     = a + (\<Sum>item\<leftarrow>prev. price item * quantity item)"
  by (induction prev arbitrary: a) simp_all

text \<open>
  Claim C7. For every cart the order total is the sum over the cart's items of price
  times quantity, plus the delivery fee of 5000; a cart of two items at 20000 and one at
  15000 totals 60000.
\<close>

theorem total_is_subtotal_plus_fee:
  "subtotal prev = (\<Sum>item\<leftarrow>prev. price item * quantity item) \<and>
   total prev = (\<Sum>item\<leftarrow>prev. price item * quantity item) + 5000 \<and>
   (\<forall>a b. price a = 20000 \<and> quantity a = 2 \<and> price b = 15000 \<and> quantity b = 1 \<longrightarrow>
      total [a, b] = 60000)"
  by (simp add: total_def subtotal_def DELIVERY_FEE_def foldl_subtotal)

text \<open>The cart of the example, with concrete items.\<close>

theorem total_is_subtotal_plus_fee_witness:
  "price (cartItem single_stock 2) = 20000 \<and> quantity (cartItem single_stock 2) = 2 \<and>
   price (cartItem large 1) = 15000 \<and> quantity (cartItem large 1) = 1 \<and>
   total [cartItem single_stock 2, cartItem large 1] = 60000"
proof -
  have h: "price (cartItem single_stock 2) = 20000 \<and> quantity (cartItem single_stock 2) = 2 \<and>
     price (cartItem large 1) = 15000 \<and> quantity (cartItem large 1) = 1"
    by (simp add: cartItem_def single_stock_def large_def)
  from total_is_subtotal_plus_fee [of "[]"] h
  have "total [cartItem single_stock 2, cartItem large 1] = 60000" by blast
  with h show ?thesis by simp
qed

section \<open>Adding a cylinder that is not in the cart\<close>

text \<open>
  Claim C10. For a cylinder whose id is not in the cart, \<open>addToCart\<close> appends it with
  quantity 1 whatever its stock: the stock is compared only on the branch of an item
  already present. Added at \<open>stockQuantity = 0\<close>, the new item's quantity exceeds its
  \<open>stockQuantity\<close>.
\<close>

theorem addToCart_absent_appends:
  assumes "cid cylinder \<notin> cid ` set prev"
  shows "addToCart cylinder prev = prev @ [cartItem cylinder 1] \<and>
         quantity (last (addToCart cylinder prev)) = 1 \<and>
         stockQuantity (last (addToCart cylinder prev)) = stockQuantity cylinder \<and>
         (stockQuantity cylinder = 0 \<longrightarrow>
            quantity (last (addToCart cylinder prev)) > stockQuantity (last (addToCart cylinder prev)))"
proof -
  from assms have "\<not> (\<exists>item. item \<in> set prev \<and> cid item = cid cylinder)"
    by (metis imageI)
  then have "find (\<lambda>item. cid item = cid cylinder) prev = None"
    by (simp add: find_None_iff)
  then have "addToCart cylinder prev = prev @ [cartItem cylinder 1]" by (rule addToCart_new)
  then show ?thesis by (simp add: cartItem_def)
qed

text \<open>A cylinder without stock, added to a cart that holds another one.\<close>

theorem addToCart_absent_appends_witness:
  "cid out_of_stock \<notin> cid ` set [cartItem large 1] \<and>
   addToCart out_of_stock [cartItem large 1] = [cartItem large 1, cartItem out_of_stock 1] \<and>
   stockQuantity (last (addToCart out_of_stock [cartItem large 1])) = 0 \<and>
   quantity (last (addToCart out_of_stock [cartItem large 1])) = 1"
proof -
  have h: "cid out_of_stock \<notin> cid ` set [cartItem large 1]"
    by (simp add: cartItem_def out_of_stock_def single_stock_def large_def)
  have s: "stockQuantity out_of_stock = 0" by (simp add: out_of_stock_def)
  from addToCart_absent_appends [OF h] s h show ?thesis
    by (simp add: cartItem_def out_of_stock_def single_stock_def)
qed

section \<open>Submission validation\<close>

lemma ascii_trim_Nil: "ascii_trim [] = []"
  by (simp add: ascii_trim_def)

lemma ascii_trim_example: "ascii_trim '' Plot 1, Kampala '' = ''Plot 1, Kampala''"
  by (simp add: ascii_trim_def ascii_space_def)

text \<open>
  \<open>canPlaceOrder\<close> does not read the value of the latitude: with 95 in the field, a
  cart, an address, a longitude and nothing in flight, it holds.
\<close>

theorem canPlaceOrder_latitude_counterexample:
  "deliveryLat north_form = ''95'' \<and>
   cart north_form = [cartItem large 1] \<and>
   ascii_trim (deliveryAddress north_form) = ''Plot 1, Kampala'' \<and>
   deliveryLng north_form = ''32.5825'' \<and>
   loading north_form = False \<and>
   canPlaceOrder ascii_trim north_form"
  by (simp add: canPlaceOrder_def north_form_def ascii_trim_example)

lemma in_range:
  "\<not> (isNaN x \<or> js_lt x (Num (- b)) \<or> js_gt x (Num b)) \<longleftrightarrow> (\<exists>r. x = Num r \<and> - b \<le> r \<and> r \<le> b)"
  by (cases x) (auto simp: isNaN_def js_gt_def)

lemma placeOrder_submits:
  "(\<exists>payload t. placeOrder parseFloat trim usr tok s = CreateOrder payload t) \<longleftrightarrow>
     (\<exists>u. usr = Some u) \<and> (\<exists>t. tok = Some t \<and> t \<noteq> []) \<and> canPlaceOrder trim s \<and>
     \<not> (isNaN (parseFloat (deliveryLat s)) \<or> js_lt (parseFloat (deliveryLat s)) (Num (- 90)) \<or>
        js_gt (parseFloat (deliveryLat s)) (Num 90)) \<and>
     \<not> (isNaN (parseFloat (deliveryLng s)) \<or> js_lt (parseFloat (deliveryLng s)) (Num (- 180)) \<or>
        js_gt (parseFloat (deliveryLng s)) (Num 180))"
  by (cases usr; cases tok) (auto simp: placeOrder_def Let_def)

text \<open>
  Claim C2, as the code has it. \<open>canPlaceOrder\<close> holds exactly when the cart is not
  empty, the trimmed address is not empty, the latitude and longitude fields are not empty
  and no submission is in flight; so it has the same value for any non-empty latitude and
  longitude, 95 included. The range check is \<open>placeOrder\<close>'s: it calls
  \<open>createOrder\<close> exactly when a user and a non-empty token are there,
  \<open>canPlaceOrder\<close> holds, the latitude parses to a number in \<open>[-90, 90]\<close> and the
  longitude to one in \<open>[-180, 180]\<close>. With latitude 95 it never calls
  \<open>createOrder\<close>, and for a logged-in user whose form passes \<open>canPlaceOrder\<close> it
  raises the invalid-coordinates alert.
\<close>

theorem placeOrder_checks_coordinates:
  "(canPlaceOrder trim s \<longleftrightarrow>
      cart s \<noteq> [] \<and> trim (deliveryAddress s) \<noteq> [] \<and> deliveryLat s \<noteq> [] \<and>
      deliveryLng s \<noteq> [] \<and> \<not> loading s) \<and>
   (\<forall>a b a' b'. a \<noteq> [] \<and> b \<noteq> [] \<and> a' \<noteq> [] \<and> b' \<noteq> [] \<longrightarrow>
      canPlaceOrder trim (s\<lparr>deliveryLat := a, deliveryLng := b\<rparr>) =
      canPlaceOrder trim (s\<lparr>deliveryLat := a', deliveryLng := b'\<rparr>)) \<and>
   ((\<exists>payload t. placeOrder parseFloat trim usr tok s = CreateOrder payload t) \<longleftrightarrow>
      (\<exists>u. usr = Some u) \<and> (\<exists>t. tok = Some t \<and> t \<noteq> []) \<and> canPlaceOrder trim s \<and>
      (\<exists>lat lng. parseFloat (deliveryLat s) = Num lat \<and> - 90 \<le> lat \<and> lat \<le> 90 \<and>
                 parseFloat (deliveryLng s) = Num lng \<and> - 180 \<le> lng \<and> lng \<le> 180)) \<and>
   (parseFloat (deliveryLat s) = Num 95 \<longrightarrow>
      (\<forall>payload t. placeOrder parseFloat trim usr tok s \<noteq> CreateOrder payload t) \<and>
      (\<forall>u t. usr = Some u \<and> tok = Some t \<and> t \<noteq> [] \<and> canPlaceOrder trim s \<longrightarrow>
         placeOrder parseFloat trim usr tok s =
           Alerted ''Invalid Coordinates'' ''Please enter valid latitude and longitude''))"
proof -
  have A: "canPlaceOrder trim s \<longleftrightarrow>
      cart s \<noteq> [] \<and> trim (deliveryAddress s) \<noteq> [] \<and> deliveryLat s \<noteq> [] \<and>
      deliveryLng s \<noteq> [] \<and> \<not> loading s"
    by (simp add: canPlaceOrder_def)
  have B: "canPlaceOrder trim (s\<lparr>deliveryLat := a, deliveryLng := b\<rparr>) =
      canPlaceOrder trim (s\<lparr>deliveryLat := a', deliveryLng := b'\<rparr>)"
    if "a \<noteq> [] \<and> b \<noteq> [] \<and> a' \<noteq> [] \<and> b' \<noteq> []" for a b a' b'
    using that by (simp add: canPlaceOrder_def)
  have C: "(\<exists>payload t. placeOrder parseFloat trim usr tok s = CreateOrder payload t) \<longleftrightarrow>
      (\<exists>u. usr = Some u) \<and> (\<exists>t. tok = Some t \<and> t \<noteq> []) \<and> canPlaceOrder trim s \<and>
      (\<exists>lat lng. parseFloat (deliveryLat s) = Num lat \<and> - 90 \<le> lat \<and> lat \<le> 90 \<and>
                 parseFloat (deliveryLng s) = Num lng \<and> - 180 \<le> lng \<and> lng \<le> 180)"
    unfolding placeOrder_submits in_range by blast
  have D: "\<And>payload t. placeOrder parseFloat trim usr tok s \<noteq> CreateOrder payload t"
    if lat: "parseFloat (deliveryLat s) = Num 95"
    using lat by (simp add: placeOrder_def Let_def js_gt_def split: option.splits)
  have E: "placeOrder parseFloat trim usr tok s =
        Alerted ''Invalid Coordinates'' ''Please enter valid latitude and longitude''"
    if lat: "parseFloat (deliveryLat s) = Num 95"
      and "usr = Some u \<and> tok = Some t \<and> t \<noteq> [] \<and> canPlaceOrder trim s" for u t
    using that by (simp add: placeOrder_def Let_def js_gt_def)
  from A B C D E show ?thesis by blast
qed

text \<open>The form with latitude 95 is refused by \<open>placeOrder\<close>; with 0.3476 it is submitted.\<close>

theorem placeOrder_checks_coordinates_witness:
  "sample_parseFloat (deliveryLat north_form) = Num 95 \<and>
   canPlaceOrder ascii_trim north_form \<and>
   placeOrder sample_parseFloat ascii_trim (Some alice) (Some ''tok'') north_form =
     Alerted ''Invalid Coordinates'' ''Please enter valid latitude and longitude'' \<and>
   placeOrder sample_parseFloat ascii_trim (Some alice) (Some ''tok'')
       (north_form\<lparr>deliveryLat := ''0.3476''\<rparr>) =
     CreateOrder
       \<lparr>customerId = ''u1'', items = Some [\<lparr>cylinderId = ''c2'', orderQuantity = 1\<rparr>],
        orderAddress = ''Plot 1, Kampala'', deliveryLatitude = Num (3476 / 10000),
        deliveryLongitude = Num (325825 / 10000), specialInstructions = None\<rparr> ''tok'' \<and>
   canPlaceOrder ascii_trim (north_form\<lparr>deliveryLat := ''0.3476''\<rparr>) \<and>
   sample_parseFloat ''0.3476'' = Num (3476 / 10000) \<and>
   sample_parseFloat ''32.5825'' = Num (325825 / 10000)"
proof -
  have lat: "sample_parseFloat (deliveryLat north_form) = Num 95"
    by (simp add: sample_parseFloat_def north_form_def)
  have c: "canPlaceOrder ascii_trim north_form"
    by (simp add: canPlaceOrder_def north_form_def ascii_trim_example)
  have p: "sample_parseFloat ''0.3476'' = Num (3476 / 10000) \<and>
      sample_parseFloat ''32.5825'' = Num (325825 / 10000)"
    by (simp add: sample_parseFloat_def)
  have sub: "placeOrder sample_parseFloat ascii_trim (Some alice) (Some ''tok'')
       (north_form\<lparr>deliveryLat := ''0.3476''\<rparr>) =
     CreateOrder
       \<lparr>customerId = ''u1'', items = Some [\<lparr>cylinderId = ''c2'', orderQuantity = 1\<rparr>],
        orderAddress = ''Plot 1, Kampala'', deliveryLatitude = Num (3476 / 10000),
        deliveryLongitude = Num (325825 / 10000), specialInstructions = None\<rparr> ''tok''"
    by (simp add: placeOrder_def canPlaceOrder_def north_form_def ascii_trim_example
        sample_parseFloat_def isNaN_def js_gt_def alice_def cartItem_def large_def ascii_trim_Nil)
  note checks = placeOrder_checks_coordinates
  from checks [of ascii_trim north_form sample_parseFloat "Some alice" "Some ''tok''"] lat c
  have a: "placeOrder sample_parseFloat ascii_trim (Some alice) (Some ''tok'') north_form =
     Alerted ''Invalid Coordinates'' ''Please enter valid latitude and longitude''"
    by blast
  from checks [of ascii_trim "north_form\<lparr>deliveryLat := ''0.3476''\<rparr>" sample_parseFloat
      "Some alice" "Some ''tok''"] sub
  have "canPlaceOrder ascii_trim (north_form\<lparr>deliveryLat := ''0.3476''\<rparr>)" by blast
  with lat c p sub a show ?thesis by blast
qed

section \<open>The API client\<close>

text \<open>
  What \<open>request\<close> sends and what it returns on a 204 and on a response that is not a
  success.
\<close>

lemma show_502: "show_int 502 = ''502''"
  by (simp add: show_int_def digits.simps)

lemma request_sent:
  "\<exists>config. snd (request fetch baseURL endpoint options net) = net @ [(baseURL @ endpoint, config)] \<and>
     http_method config = http_method options \<and> body config = body options \<and>
     (\<forall>k v. headers options k = Some v \<longrightarrow> headers config k = Some v)"
  by (simp add: request_def Let_def map_add_def split: sum.splits option.splits bool.splits prod.splits)

lemma request_204:
  "status r = 204 \<Longrightarrow> fst (request (\<lambda>_ _. Inr r) baseURL endpoint options net) = Inr (JObj [])"
  by (simp add: request_def Let_def)

lemma request_not_ok:
  assumes "\<not> ok r"
  shows "fst (request (\<lambda>_ _. Inr r) baseURL endpoint options net) =
     (case json_body r of
        Inl e \<Rightarrow> Inl e
      | Inr data \<Rightarrow>
          (case property data ''error'' of
             Inl e \<Rightarrow> Inl e
           | Inr err \<Rightarrow>
               (case (truthy err, err) of
                  (True, Some v) \<Rightarrow> Inl (Error (js_string v))
                | _ \<Rightarrow>
                    (case property data ''message'' of
                       Inl e \<Rightarrow> Inl e
                     | Inr msg \<Rightarrow>
                         (case (truthy msg, msg) of
                            (True, Some v) \<Rightarrow> Inl (Error (js_string v))
                          | _ \<Rightarrow> Inl (Error (''HTTP error! status: '' @ show_int (status r))))))))"
proof -
  have "status r \<noteq> 204" using assms by (auto simp: ok_def)
  then show ?thesis using assms
    by (simp add: request_def Let_def split: sum.splits option.splits bool.splits)
qed

text \<open>
  The body is parsed before the status is looked at, and nothing catches the parser's
  error: a 502 whose body is an HTML page raises the error of \<open>response.json()\<close>, not
  the generic message the specification's words give.
\<close>

theorem request_error_message_counterexample:
  "\<not> ok bad_gateway \<and>
   fst (request (\<lambda>_ _. Inr bad_gateway) API_BASE_URL ''/auth/register'' get_options []) =
     Inl (Error ''JSON Parse error: Unexpected token: <'') \<and>
   spec_error_message bad_gateway = ''HTTP error! status: 502'' \<and>
   fst (request (\<lambda>_ _. Inr bad_gateway) API_BASE_URL ''/auth/register'' get_options []) \<noteq>
     Inl (Error (spec_error_message bad_gateway))"
  by (simp add: request_def Let_def ok_def bad_gateway_def get_options_def spec_error_message_def show_502)

text \<open>
  Claim C5, as the code has it. When \<open>request\<close> receives a response that is not a
  success and whose body parses to a JSON object, it raises an error whose message is the
  body's \<open>error\<close> if that is a non-empty string, else (with \<open>error\<close> missing or
  falsy) its \<open>message\<close> if that is a non-empty string, else (both missing or falsy)
  \<open>HTTP error! status: <code>\<close>. When the body cannot be parsed, the error of
  \<open>response.json()\<close> is raised as it is. The body \<open>{error: "Email already exists"}\<close>
  raises exactly that string.
\<close>

theorem request_error_message:
  assumes "\<not> ok r"
  shows
    "(\<forall>kvs e. json_body r = Inr (JObj kvs) \<and> map_of kvs ''error'' = Some (JStr e) \<and> e \<noteq> [] \<longrightarrow>
        fst (request (\<lambda>_ _. Inr r) baseURL endpoint options net) = Inl (Error e)) \<and>
     (\<forall>kvs m. json_body r = Inr (JObj kvs) \<and> \<not> truthy (map_of kvs ''error'') \<and>
              map_of kvs ''message'' = Some (JStr m) \<and> m \<noteq> [] \<longrightarrow>
        fst (request (\<lambda>_ _. Inr r) baseURL endpoint options net) = Inl (Error m)) \<and>
     (\<forall>kvs. json_body r = Inr (JObj kvs) \<and> \<not> truthy (map_of kvs ''error'') \<and>
              \<not> truthy (map_of kvs ''message'') \<longrightarrow>
        fst (request (\<lambda>_ _. Inr r) baseURL endpoint options net) =
          Inl (Error (''HTTP error! status: '' @ show_int (status r)))) \<and>
     (\<forall>e. json_body r = Inl e \<longrightarrow>
        fst (request (\<lambda>_ _. Inr r) baseURL endpoint options net) = Inl e) \<and>
     (json_body r = Inr (JObj [(''error'', JStr ''Email already exists'')]) \<longrightarrow>
        fst (request (\<lambda>_ _. Inr r) baseURL endpoint options net) =
          Inl (Error ''Email already exists''))"
  unfolding request_not_ok [OF assms]
  by (auto split: option.splits json.splits bool.splits)

text \<open>A 409 with the body of the example, and the 502 with an HTML body.\<close>

theorem request_error_message_witness:
  "\<not> ok conflict \<and>
   json_body conflict = Inr (JObj [(''error'', JStr ''Email already exists'')]) \<and>
   fst (request (\<lambda>_ _. Inr conflict) API_BASE_URL ''/auth/register'' get_options []) =
     Inl (Error ''Email already exists'') \<and>
   \<not> ok bad_gateway \<and>
   fst (request (\<lambda>_ _. Inr bad_gateway) API_BASE_URL ''/auth/register'' get_options []) =
     json_body bad_gateway"
proof -
  have h1: "\<not> ok conflict" by (simp add: ok_def conflict_def)
  have h2: "\<not> ok bad_gateway" by (simp add: ok_def bad_gateway_def)
  have b1: "json_body conflict = Inr (JObj [(''error'', JStr ''Email already exists'')])"
    by (simp add: conflict_def)
  have b2: "json_body bad_gateway = Inl (Error ''JSON Parse error: Unexpected token: <'')"
    by (simp add: bad_gateway_def)
  from request_error_message [OF h1, of API_BASE_URL "''/auth/register''" get_options "[]"] b1
  have r1: "fst (request (\<lambda>_ _. Inr conflict) API_BASE_URL ''/auth/register'' get_options []) =
     Inl (Error ''Email already exists'')" by blast
  from request_error_message [OF h2, of API_BASE_URL "''/auth/register''" get_options "[]"] b2
  have r2: "fst (request (\<lambda>_ _. Inr bad_gateway) API_BASE_URL ''/auth/register'' get_options []) =
     json_body bad_gateway" by metis
  from h1 h2 b1 r1 r2 show ?thesis by blast
qed

text \<open>
  Claim C8. \<open>createOrder\<close> throws without a call of \<open>fetch\<close> when the payload has an
  empty \<open>customerId\<close>, missing or empty \<open>items\<close>, or an empty delivery address, with
  the message of the first check that fails; a payload that passes the three checks is
  sent as one \<open>POST\<close> to \<open>/orders\<close> with the bearer token and the stringified
  payload.
\<close>

theorem createOrder_preconditions:
  "(customerId orderData = [] \<longrightarrow>
      createOrder fetch stringify baseURL orderData t net = (Inl (Error ''Customer ID is required''), net)) \<and>
   (customerId orderData \<noteq> [] \<and> (items orderData = None \<or> items orderData = Some []) \<longrightarrow>
      createOrder fetch stringify baseURL orderData t net = (Inl (Error ''Order items are required''), net)) \<and>
   (customerId orderData \<noteq> [] \<and> items orderData \<noteq> None \<and> items orderData \<noteq> Some [] \<and>
    orderAddress orderData = [] \<longrightarrow>
      createOrder fetch stringify baseURL orderData t net =
        (Inl (Error ''Delivery address is required''), net)) \<and>
   (customerId orderData = [] \<or> items orderData = None \<or> items orderData = Some [] \<or>
    orderAddress orderData = [] \<longrightarrow>
      snd (createOrder fetch stringify baseURL orderData t net) = net \<and>
      (\<exists>msg. msg \<noteq> [] \<and> fst (createOrder fetch stringify baseURL orderData t net) = Inl (Error msg))) \<and>
   (customerId orderData \<noteq> [] \<and> items orderData \<noteq> None \<and> items orderData \<noteq> Some [] \<and>
    orderAddress orderData \<noteq> [] \<longrightarrow>
      (\<exists>config. snd (createOrder fetch stringify baseURL orderData t net) =
                  net @ [(baseURL @ ''/orders'', config)] \<and>
                http_method config = ''POST'' \<and>
                body config = Some (stringify orderData) \<and>
                headers config ''Authorization'' = Some (''Bearer '' @ t)))"
proof -
  have sent: "\<exists>config. snd (createOrder fetch stringify baseURL orderData t net) =
                  net @ [(baseURL @ ''/orders'', config)] \<and>
                http_method config = ''POST'' \<and>
                body config = Some (stringify orderData) \<and>
                headers config ''Authorization'' = Some (''Bearer '' @ t)"
    if "customerId orderData \<noteq> [] \<and> items orderData \<noteq> None \<and> items orderData \<noteq> Some [] \<and>
        orderAddress orderData \<noteq> []"
  proof -
    let ?opts = "\<lparr>http_method = ''POST'',
           headers = [''Authorization'' \<mapsto> ''Bearer '' @ t,
                      ''Content-Type'' \<mapsto> ''application/json''],
           body = Some (stringify orderData)\<rparr>"
    have eq: "createOrder fetch stringify baseURL orderData t net =
        request fetch baseURL ''/orders'' ?opts net"
      using that by (auto simp: createOrder_def)
    from request_sent [of fetch baseURL "''/orders''" ?opts net]
    obtain config where c: "snd (request fetch baseURL ''/orders'' ?opts net) = net @ [(baseURL @ ''/orders'', config)]"
      "http_method config = http_method ?opts" "body config = body ?opts"
      "\<forall>k v. headers ?opts k = Some v \<longrightarrow> headers config k = Some v"
      by blast
    from c(4) have "headers config ''Authorization'' = Some (''Bearer '' @ t)" by simp
    with c(1,2,3) show ?thesis unfolding eq by auto
  qed
  have rejects: "snd (createOrder fetch stringify baseURL orderData t net) = net \<and>
      (\<exists>msg. msg \<noteq> [] \<and> fst (createOrder fetch stringify baseURL orderData t net) = Inl (Error msg))"
    if "customerId orderData = [] \<or> items orderData = None \<or> items orderData = Some [] \<or>
        orderAddress orderData = []"
    using that by (auto simp: createOrder_def)
  have A: "createOrder fetch stringify baseURL orderData t net = (Inl (Error ''Customer ID is required''), net)"
    if "customerId orderData = []"
    using that by (simp add: createOrder_def)
  have B: "createOrder fetch stringify baseURL orderData t net = (Inl (Error ''Order items are required''), net)"
    if "customerId orderData \<noteq> [] \<and> (items orderData = None \<or> items orderData = Some [])"
    using that by (auto simp: createOrder_def)
  have C: "createOrder fetch stringify baseURL orderData t net =
        (Inl (Error ''Delivery address is required''), net)"
    if "customerId orderData \<noteq> [] \<and> items orderData \<noteq> None \<and> items orderData \<noteq> Some [] \<and>
        orderAddress orderData = []"
    using that by (auto simp: createOrder_def)
  from A B C rejects sent show ?thesis by blast
qed

text \<open>The three refusals and a dispatch, on a sample order.\<close>

theorem createOrder_preconditions_witness:
  "createOrder (\<lambda>_ _. Inr no_content) (\<lambda>_. ''{}'') API_BASE_URL (sample_order\<lparr>items := Some []\<rparr>) ''tok'' [] =
     (Inl (Error ''Order items are required''), []) \<and>
   createOrder (\<lambda>_ _. Inr no_content) (\<lambda>_. ''{}'') API_BASE_URL (sample_order\<lparr>customerId := []\<rparr>) ''tok'' [] =
     (Inl (Error ''Customer ID is required''), []) \<and>
   createOrder (\<lambda>_ _. Inr no_content) (\<lambda>_. ''{}'') API_BASE_URL (sample_order\<lparr>orderAddress := []\<rparr>) ''tok'' [] =
     (Inl (Error ''Delivery address is required''), []) \<and>
   length (snd (createOrder (\<lambda>_ _. Inr no_content) (\<lambda>_. ''{}'') API_BASE_URL sample_order ''tok'' [])) = 1"
proof -
  note pre = createOrder_preconditions [of _ "\<lambda>_ _. Inr no_content" "\<lambda>_. ''{}''" API_BASE_URL "''tok''" "[]"]
  have a: "createOrder (\<lambda>_ _. Inr no_content) (\<lambda>_. ''{}'') API_BASE_URL (sample_order\<lparr>items := Some []\<rparr>) ''tok'' [] =
     (Inl (Error ''Order items are required''), [])"
    using pre [of "sample_order\<lparr>items := Some []\<rparr>"] by (simp add: sample_order_def)
  have b: "createOrder (\<lambda>_ _. Inr no_content) (\<lambda>_. ''{}'') API_BASE_URL (sample_order\<lparr>customerId := []\<rparr>) ''tok'' [] =
     (Inl (Error ''Customer ID is required''), [])"
    using pre [of "sample_order\<lparr>customerId := []\<rparr>"] by (simp add: sample_order_def)
  have c: "createOrder (\<lambda>_ _. Inr no_content) (\<lambda>_. ''{}'') API_BASE_URL (sample_order\<lparr>orderAddress := []\<rparr>) ''tok'' [] =
     (Inl (Error ''Delivery address is required''), [])"
    using pre [of "sample_order\<lparr>orderAddress := []\<rparr>"] by (simp add: sample_order_def)
  have "customerId sample_order \<noteq> [] \<and> items sample_order \<noteq> None \<and> items sample_order \<noteq> Some [] \<and>
    orderAddress sample_order \<noteq> []" by (simp add: sample_order_def)
  with pre [of sample_order]
  obtain config where "snd (createOrder (\<lambda>_ _. Inr no_content) (\<lambda>_. ''{}'') API_BASE_URL sample_order ''tok'' []) =
     [] @ [(API_BASE_URL @ ''/orders'', config)]" by blast
  then have d: "length (snd (createOrder (\<lambda>_ _. Inr no_content) (\<lambda>_. ''{}'') API_BASE_URL sample_order ''tok'' [])) = 1"
    by simp
  from a b c d show ?thesis by blast
qed

text \<open>
  Claim C9. On a response of status 204, \<open>request\<close> returns the empty object whatever
  the body is, also one that \<open>response.json()\<close> would reject; and so does every method
  of the client, \<open>createOrder\<close> for a payload that passes its checks (for another one it
  throws before any response).
\<close>

theorem no_content_gives_empty_object:
  assumes "status r = 204"
  shows "fst (request (\<lambda>_ _. Inr r) baseURL endpoint options net) = Inr (JObj []) \<and>
         (\<forall>m. (\<forall>orderData t. m = M_createOrder orderData t \<longrightarrow>
                  customerId orderData \<noteq> [] \<and> items orderData \<noteq> None \<and>
                  items orderData \<noteq> Some [] \<and> orderAddress orderData \<noteq> []) \<longrightarrow>
              fst (invoke (\<lambda>_ _. Inr r) stringify baseURL m net) = Inr (JObj []))"
proof -
  note empty = request_204 [OF assms]
  have "fst (invoke (\<lambda>_ _. Inr r) stringify baseURL m net) = Inr (JObj [])"
    if "\<forall>orderData t. m = M_createOrder orderData t \<longrightarrow>
          customerId orderData \<noteq> [] \<and> items orderData \<noteq> None \<and>
          items orderData \<noteq> Some [] \<and> orderAddress orderData \<noteq> []" for m
    using that by (cases m) (simp_all add: empty createOrder_def)
  with empty show ?thesis by blast
qed

text \<open>A 204 whose body does not parse.\<close>

theorem no_content_gives_empty_object_witness:
  "status no_content = 204 \<and>
   json_body no_content = Inl (Error ''JSON Parse error: Unexpected end of input'') \<and>
   fst (request (\<lambda>_ _. Inr no_content) API_BASE_URL ''/orders/o1'' get_options []) = Inr (JObj []) \<and>
   fst (invoke (\<lambda>_ _. Inr no_content) (\<lambda>_. ''{}'') API_BASE_URL (M_logout ''tok'') []) = Inr (JObj []) \<and>
   fst (invoke (\<lambda>_ _. Inr no_content) (\<lambda>_. ''{}'') API_BASE_URL (M_createOrder sample_order ''tok'') []) =
     Inr (JObj [])"
proof -
  have h: "status no_content = 204" by (simp add: no_content_def)
  have b: "json_body no_content = Inl (Error ''JSON Parse error: Unexpected end of input'')"
    by (simp add: no_content_def)
  have v: "\<forall>orderData t. M_createOrder sample_order ''tok'' = M_createOrder orderData t \<longrightarrow>
      customerId orderData \<noteq> [] \<and> items orderData \<noteq> None \<and>
      items orderData \<noteq> Some [] \<and> orderAddress orderData \<noteq> []"
    by (simp add: sample_order_def)
  have l: "\<forall>orderData t. M_logout ''tok'' = M_createOrder orderData t \<longrightarrow>
      customerId orderData \<noteq> [] \<and> items orderData \<noteq> None \<and>
      items orderData \<noteq> Some [] \<and> orderAddress orderData \<noteq> []"
    by simp
  note empty = no_content_gives_empty_object [OF h, where baseURL = API_BASE_URL and net = "[]"
      and endpoint = "''/orders/o1''" and options = get_options and stringify = "\<lambda>_. ''{}''"]
  from empty v have 1: "fst (invoke (\<lambda>_ _. Inr no_content) (\<lambda>_. ''{}'') API_BASE_URL
      (M_createOrder sample_order ''tok'') []) = Inr (JObj [])" by blast
  from empty l have 2: "fst (invoke (\<lambda>_ _. Inr no_content) (\<lambda>_. ''{}'') API_BASE_URL
      (M_logout ''tok'') []) = Inr (JObj [])" by blast
  from empty h b 1 2 show ?thesis by blast
qed

section \<open>The session manager\<close>

text \<open>
  \<open>logout\<close> always completes; the other operations set user and token to what the
  answer carries, or leave both alone.
\<close>

lemmas action_defs = try_finally_def try_catch_def await_def done_with_def throw_def settle_def
  ignore_def setUser_def setToken_def setIsLoading_def setError_def getItem_def setItem_def
  clear_def router_replace_def

lemma logout_completes:
  "fst (logout E tok w) = Inr () \<and> user (snd (logout E tok w)) = None \<and>
   token (snd (logout E tok w)) = None \<and> isLoading (snd (logout E tok w)) = False"
  by (simp add: logout_def action_defs split: option.splits sum.splits )

lemma store_no_backend: "\<not> has_backend st \<Longrightarrow> store m st = st"
  by (cases st rule: has_backend.cases) simp_all

lemma logout_storage:
  "storage (snd (logout E tok w)) =
     (if has_backend (storage w) \<and> clear_fails E \<noteq> None then storage w
      else store Map.empty (storage w))"
  by (simp add: logout_def action_defs store_no_backend split: option.splits sum.splits)

lemma logout_run: "logout E tok w = (Inr (), after_logout E tok w)"
  using logout_completes [of E tok w] by (simp add: after_logout_def prod_eq_iff)

lemma after_logout_simps:
  "user (after_logout E tok w) = None"
  "token (after_logout E tok w) = None"
  "isLoading (after_logout E tok w) = False"
  "storage (after_logout E tok w) =
     (if has_backend (storage w) \<and> clear_fails E \<noteq> None then storage w
      else store Map.empty (storage w))"
  using logout_completes [of E tok w] logout_storage [of E tok w]
  by (simp_all add: after_logout_def)

lemma persisted_store_empty: "persisted (store Map.empty st) = Map.empty"
  by (cases st rule: has_backend.cases) simp_all

lemma no_backend_persisted: "\<not> has_backend st \<Longrightarrow> persisted st = Map.empty"
  by (cases st rule: has_backend.cases) simp_all

lemma login_session:
  "session_whole w \<Longrightarrow> whole_answer (apiLogin E c) \<Longrightarrow> session_whole (snd (login E c w))"
  by (auto simp add: login_def action_defs session_whole_def whole_answer_def
      split: option.splits sum.splits)

lemma register_session:
  "session_whole w \<Longrightarrow> whole_answer (apiRegister E d) \<Longrightarrow> session_whole (snd (register E d w))"
  by (auto simp add: register_def action_defs session_whole_def whole_answer_def
      split: option.splits sum.splits)

lemma refresh_session:
  "session_whole w \<Longrightarrow> receives_whole w (E, Refresh) \<Longrightarrow>
     session_whole (snd (refreshToken E (token w) w))"
  by (auto simp add: refreshToken_def action_defs session_whole_def whole_answer_def logout_run
      after_logout_simps split: option.splits sum.splits)

lemma logout_session: "session_whole (snd (logout E tok w))"
  using logout_completes [of E tok w] by (simp add: session_whole_def)

lemma restore_session:
  "session_whole w \<Longrightarrow> receives_whole w (E, Restore) \<Longrightarrow>
     session_whole (snd (loadStoredAuthData E w))"
  by (auto simp add: loadStoredAuthData_def action_defs session_whole_def logout_run
      after_logout_simps split: option.splits sum.splits)

lemma perform_session:
  "session_whole w \<Longrightarrow> receives_whole w step \<Longrightarrow> session_whole (perform w step)"
proof -
  assume w: "session_whole w" and r: "receives_whole w step"
  obtain E c where step: "step = (E, c)" by (cases step)
  show ?thesis
    unfolding step
  proof (cases c)
    case Restore
    with w r step show "session_whole (perform w (E, c))" by (simp add: restore_session)
  next
    case (Login credentials)
    with w r step show "session_whole (perform w (E, c))" by (simp add: login_session)
  next
    case (Register userData)
    with w r step show "session_whole (perform w (E, c))" by (simp add: register_session)
  next
    case Refresh
    with w r step show "session_whole (perform w (E, c))" by (simp add: refresh_session)
  next
    case Logout
    then show "session_whole (perform w (E, c))" by (simp add: logout_session)
  qed
qed

lemma run_auth_session:
  "session_whole w \<Longrightarrow> run_receives_whole calls w \<Longrightarrow> session_whole (run_auth calls w)"
  unfolding run_auth_def by (induction calls arbitrary: w) (simp_all add: perform_session)

lemma restore_unverified:
  assumes "persisted (storage w) ''authToken'' = Some t" "t \<noteq> []"
    and "persisted (storage w) ''userData'' = Some d" "d \<noteq> []"
    and "getItem_fails E ''authToken'' = None" "getItem_fails E ''userData'' = None"
    and "JSON_parse E d = Inr u" and "apiVerifyToken E t = Inl e"
  shows "loadStoredAuthData E w = (Inr (), (after_logout E None (w\<lparr>isLoading := True, user := u, token := Some t\<rparr>))\<lparr>isLoading := False\<rparr>)"
proof -
  have "has_backend (storage w)" using assms(1) by (cases "storage w" rule: has_backend.cases) simp_all
  then show ?thesis using assms
    by (simp add: loadStoredAuthData_def action_defs logout_run)
qed

text \<open>
  When \<open>CrossPlatformStorage.clear()\<close> throws, the \<open>catch\<close> of \<open>logout\<close> clears the
  state in memory and reports that the session was cleared locally: the stored token
  stays.
\<close>

theorem logout_clears_session_counterexample:
  "apiLogout clear_rejects ''tok'' = Inl (Error ''Network request failed'') \<and>
   persisted (storage signed_in) ''authToken'' = Some ''tok'' \<and>
   fst (logout clear_rejects (token signed_in) signed_in) = Inr () \<and>
   persisted (storage (snd (logout clear_rejects (token signed_in) signed_in))) ''authToken'' = Some ''tok'' \<and>
   \<not> storage_cleared (snd (logout clear_rejects (token signed_in) signed_in))"
proof -
  have st: "storage (snd (logout clear_rejects (token signed_in) signed_in)) = device"
    by (simp add: logout_storage signed_in_def clear_rejects_def device_def)
  have p: "persisted device ''authToken'' = Some ''tok''"
    by (simp add: device_def)
  then have "persisted device \<noteq> Map.empty" by (metis option.distinct(1))
  with st p show ?thesis
    by (simp add: logout_completes storage_cleared_def clear_rejects_def unreachable_def signed_in_def)
qed

text \<open>
  Claim C3, as the code has it. From every state, with every answer of the remote logout
  call and whether or not storage or navigation throw, \<open>logout\<close> completes without
  throwing, with user and token \<open>null\<close> and the loading flag off. The storage is cleared
  whenever \<open>CrossPlatformStorage.clear()\<close> itself does not throw; when it throws on an
  existing backend, the storage is left as it was. A second \<open>logout\<close> right after does
  not throw either and leaves user and token \<open>null\<close>.
\<close>

theorem logout_clears_session:
  "fst (logout E tok w) = Inr () \<and>
   user (snd (logout E tok w)) = None \<and>
   token (snd (logout E tok w)) = None \<and>
   isLoading (snd (logout E tok w)) = False \<and>
   (clear_fails E = None \<longrightarrow> storage_cleared (snd (logout E tok w))) \<and>
   (clear_fails E \<noteq> None \<and> has_backend (storage w) \<longrightarrow>
      storage (snd (logout E tok w)) = storage w) \<and>
   fst (logout E' tok' (snd (logout E tok w))) = Inr () \<and>
   user (snd (logout E' tok' (snd (logout E tok w)))) = None \<and>
   token (snd (logout E' tok' (snd (logout E tok w)))) = None"
  by (simp add: logout_completes logout_storage storage_cleared_def persisted_store_empty)

text \<open>A logged-in session, the server unreachable: the storage is cleared all the same.\<close>

theorem logout_clears_session_witness:
  "apiLogout unreachable ''tok'' = Inl (Error ''Network request failed'') \<and>
   clear_fails unreachable = None \<and>
   user signed_in = Some alice \<and> token signed_in = Some ''tok'' \<and>
   fst (logout unreachable (token signed_in) signed_in) = Inr () \<and>
   user (snd (logout unreachable (token signed_in) signed_in)) = None \<and>
   token (snd (logout unreachable (token signed_in) signed_in)) = None \<and>
   storage_cleared (snd (logout unreachable (token signed_in) signed_in)) \<and>
   has_backend (storage signed_in) \<and>
   storage (snd (logout clear_rejects (token signed_in) signed_in)) = storage signed_in"
proof -
  have h: "clear_fails unreachable = None" by (simp add: unreachable_def)
  have a: "apiLogout unreachable ''tok'' = Inl (Error ''Network request failed'')"
    by (simp add: unreachable_def)
  have s: "user signed_in = Some alice \<and> token signed_in = Some ''tok''"
    by (simp add: signed_in_def)
  have b: "has_backend (storage signed_in)" by (simp add: signed_in_def device_def)
  have c: "clear_fails clear_rejects \<noteq> None" by (simp add: clear_rejects_def)
  from logout_clears_session [of unreachable "token signed_in" signed_in] h
  have 1: "fst (logout unreachable (token signed_in) signed_in) = Inr () \<and>
   user (snd (logout unreachable (token signed_in) signed_in)) = None \<and>
   token (snd (logout unreachable (token signed_in) signed_in)) = None \<and>
   storage_cleared (snd (logout unreachable (token signed_in) signed_in))" by blast
  from logout_clears_session [of clear_rejects "token signed_in" signed_in] b c
  have 2: "storage (snd (logout clear_rejects (token signed_in) signed_in)) = storage signed_in"
    by blast
  from h a s b 1 2 show ?thesis by blast
qed

text \<open>
  Nothing checks what an answer or the storage holds. A login answered with a token and
  \<open>user: null\<close> sets the token and no user; stored user data that is the text
  \<open>null\<close> parses without an error, and a restore whose token the server accepts ends
  with the token set and no user.
\<close>

theorem session_never_partial_counterexample:
  "user (perform (initial device) (half_answer, Login alice_login)) = None \<and>
   token (perform (initial device) (half_answer, Login alice_login)) = Some ''tok'' \<and>
   \<not> session_whole (perform (initial device) (half_answer, Login alice_login)) \<and>
   persisted (storage (initial null_device)) ''userData'' = Some ''null'' \<and>
   user (perform (initial null_device) (online, Restore)) = None \<and>
   token (perform (initial null_device) (online, Restore)) = Some ''tok'' \<and>
   \<not> session_whole (perform (initial null_device) (online, Restore))"
  by (simp add: login_def loadStoredAuthData_def action_defs session_whole_def initial_def
      device_def null_device_def half_answer_def online_def unreachable_def)

text \<open>
  Claim C4, as the code has it. An operation called on a whole session (user and token
  both set or both \<open>null\<close>) leaves a whole session, provided the answer of login,
  register or refresh it receives carries a user and a token together or neither, and
  restore does not find, beside a stored token that the server accepts, stored user data
  that parses to \<open>null\<close>; so after any run of restore, login, register, refresh and
  logout from the provider's first state in which every operation receives such answers,
  the session is whole. Logout needs no proviso.
\<close>

theorem session_never_partial:
  "(session_whole w \<and> receives_whole w (E, call) \<longrightarrow> session_whole (perform w (E, call))) \<and>
   (run_receives_whole calls (initial st) \<longrightarrow> session_whole (run_auth calls (initial st))) \<and>
   session_whole (perform w (E, Logout))"
proof -
  have "session_whole (initial st)" by (simp add: session_whole_def initial_def)
  then have "session_whole (run_auth calls (initial st))" if "run_receives_whole calls (initial st)"
    using that by (rule run_auth_session)
  moreover have "session_whole (perform w (E, Logout))" by (simp add: logout_session)
  ultimately show ?thesis using perform_session by blast
qed

text \<open>
  A run on a device that holds a session: restored, logged out with the server
  unreachable, and logged in again.
\<close>

theorem session_never_partial_witness:
  "run_receives_whole [(online, Restore), (unreachable, Logout), (online, Login alice_login)]
     (initial device) \<and>
   user (run_auth [(online, Restore)] (initial device)) = Some alice \<and>
   token (run_auth [(online, Restore)] (initial device)) = Some ''tok'' \<and>
   user (run_auth [(online, Restore), (unreachable, Logout)] (initial device)) = None \<and>
   token (run_auth [(online, Restore), (unreachable, Logout)] (initial device)) = None \<and>
   user (run_auth [(online, Restore), (unreachable, Logout), (online, Login alice_login)]
           (initial device)) = Some alice \<and>
   token (run_auth [(online, Restore), (unreachable, Logout), (online, Login alice_login)]
            (initial device)) = Some ''tok'' \<and>
   session_whole (run_auth [(online, Restore), (unreachable, Logout), (online, Login alice_login)]
                    (initial device))"
proof -
  have r1: "perform (initial device) (online, Restore) =
      \<lparr>user = Some alice, token = Some ''tok'', isLoading = False, error = None, storage = device,
       route = None\<rparr>"
    by (simp add: loadStoredAuthData_def action_defs initial_def device_def online_def
        unreachable_def)
  have r2: "perform \<lparr>user = Some alice, token = Some ''tok'', isLoading = False, error = None,
        storage = device, route = None\<rparr> (unreachable, Logout) =
      \<lparr>user = None, token = None, isLoading = False, error = None,
       storage = AsyncStorage Map.empty, route = Some ''/login''\<rparr>"
    by (simp add: logout_def block.simps action_defs device_def unreachable_def)
  have r3: "perform \<lparr>user = None, token = None, isLoading = False, error = None,
        storage = AsyncStorage Map.empty, route = Some ''/login''\<rparr> (online, Login alice_login) =
      \<lparr>user = Some alice, token = Some ''tok'', isLoading = False, error = None,
       storage = device, route = Some ''/login''\<rparr>"
    by (simp add: login_def block.simps action_defs device_def online_def unreachable_def
        fun_upd_twist)
  have h: "run_receives_whole [(online, Restore), (unreachable, Logout), (online, Login alice_login)]
     (initial device)"
    unfolding run_receives_whole.simps r1 r2
    by (simp add: whole_answer_def initial_def device_def online_def unreachable_def)
  from session_never_partial [of _ _ _ "[(online, Restore), (unreachable, Logout), (online, Login alice_login)]" device] h
  have w: "session_whole (run_auth [(online, Restore), (unreachable, Logout), (online, Login alice_login)]
                    (initial device))" by blast
  from h w show ?thesis by (simp add: run_auth_def r1 r2 r3 del: perform.simps run_receives_whole.simps)
qed

text \<open>
  The restore of a stored session whose token the server rejects calls \<open>logout\<close>; when
  the clearing of the storage throws there, the stored token stays.
\<close>

theorem restore_rejected_token_counterexample:
  "persisted (storage (initial device)) ''authToken'' = Some ''tok'' \<and>
   persisted (storage (initial device)) ''userData'' = Some ''{alice}'' \<and>
   apiVerifyToken clear_rejects ''tok'' = Inl (Error ''Network request failed'') \<and>
   persisted (storage (snd (loadStoredAuthData clear_rejects (initial device)))) ''authToken'' = Some ''tok'' \<and>
   \<not> storage_cleared (snd (loadStoredAuthData clear_rejects (initial device)))"
proof -
  have r: "loadStoredAuthData clear_rejects (initial device) =
      (Inr (), (after_logout clear_rejects None
         ((initial device)\<lparr>isLoading := True, user := Some alice, token := Some ''tok''\<rparr>))\<lparr>isLoading := False\<rparr>)"
    by (rule restore_unverified [where e = "Error ''Network request failed''" and d = "''{alice}''"])
       (simp_all add: initial_def device_def clear_rejects_def unreachable_def)
  have st: "storage (snd (loadStoredAuthData clear_rejects (initial device))) = device"
    unfolding r by (simp add: after_logout_simps initial_def device_def clear_rejects_def)
  have p: "persisted device ''authToken'' = Some ''tok''" "persisted device ''userData'' = Some ''{alice}''"
    by (simp_all add: device_def)
  then have "persisted device \<noteq> Map.empty" by (metis option.distinct(1))
  with st p show ?thesis
    by (simp add: storage_cleared_def initial_def clear_rejects_def unreachable_def)
qed

text \<open>
  Claim C6, as the code has it. When restore reads a non-empty stored token and non-empty
  stored user data, the user data parses, and the verification of the token fails, the
  operation completes with user and token \<open>null\<close> and the loading flag off; the storage
  is cleared whenever \<open>CrossPlatformStorage.clear()\<close> does not throw, and left as it
  was when it does.
\<close>

theorem restore_rejected_token:
  assumes "persisted (storage w) ''authToken'' = Some t" and "t \<noteq> []"
    and "persisted (storage w) ''userData'' = Some d" and "d \<noteq> []"
    and "getItem_fails E ''authToken'' = None" and "getItem_fails E ''userData'' = None"
    and "JSON_parse E d = Inr u"
    and "apiVerifyToken E t = Inl e"
  shows "fst (loadStoredAuthData E w) = Inr () \<and>
         user (snd (loadStoredAuthData E w)) = None \<and>
         token (snd (loadStoredAuthData E w)) = None \<and>
         isLoading (snd (loadStoredAuthData E w)) = False \<and>
         (clear_fails E = None \<longrightarrow> storage_cleared (snd (loadStoredAuthData E w))) \<and>
         (clear_fails E \<noteq> None \<longrightarrow> storage (snd (loadStoredAuthData E w)) = storage w)"
proof -
  have b: "has_backend (storage w)"
    using assms(1) by (cases "storage w" rule: has_backend.cases) simp_all
  show ?thesis
    unfolding restore_unverified [OF assms]
    using b by (simp add: after_logout_simps storage_cleared_def persisted_store_empty)
qed

text \<open>A device that holds a session, the server unreachable.\<close>

theorem restore_rejected_token_witness:
  "persisted (storage (initial device)) ''authToken'' = Some ''tok'' \<and>
   persisted (storage (initial device)) ''userData'' = Some ''{alice}'' \<and>
   JSON_parse unreachable ''{alice}'' = Inr (Some alice) \<and>
   apiVerifyToken unreachable ''tok'' = Inl (Error ''Network request failed'') \<and>
   clear_fails unreachable = None \<and>
   fst (loadStoredAuthData unreachable (initial device)) = Inr () \<and>
   user (snd (loadStoredAuthData unreachable (initial device))) = None \<and>
   token (snd (loadStoredAuthData unreachable (initial device))) = None \<and>
   storage_cleared (snd (loadStoredAuthData unreachable (initial device)))"
proof -
  have h1: "persisted (storage (initial device)) ''authToken'' = Some ''tok''"
    and h3: "persisted (storage (initial device)) ''userData'' = Some ''{alice}''"
    by (simp_all add: initial_def device_def)
  have h2: "''tok'' \<noteq> []" and h4: "''{alice}'' \<noteq> []" by simp_all
  have h5: "getItem_fails unreachable ''authToken'' = None"
    and h6: "getItem_fails unreachable ''userData'' = None"
    and h7: "JSON_parse unreachable ''{alice}'' = Inr (Some alice)"
    and h8: "apiVerifyToken unreachable ''tok'' = Inl (Error ''Network request failed'')"
    and h9: "clear_fails unreachable = None"
    by (simp_all add: unreachable_def)
  from restore_rejected_token [OF h1 h2 h3 h4 h5 h6 h7 h8] h9
  have "fst (loadStoredAuthData unreachable (initial device)) = Inr () \<and>
   user (snd (loadStoredAuthData unreachable (initial device))) = None \<and>
   token (snd (loadStoredAuthData unreachable (initial device))) = None \<and>
   storage_cleared (snd (loadStoredAuthData unreachable (initial device)))" by blast
  with h1 h3 h7 h8 h9 show ?thesis by blast
qed

end
